theory Spec2Isabelle
  imports Main "HOL-Library.Word"
begin

section \<open>The authenticated connection handshake of pkg/net/libp2p\<close>

text \<open>
  The second Go file held in \<^verbatim>\<open>commitment.go\<close> (package \<^verbatim>\<open>libp2p\<close>) upgrades a plain
  \<^verbatim>\<open>net.Conn\<close> into an \<^verbatim>\<open>authenticatedConnection\<close> by a three-act handshake. The
  embedding keeps the Go names. Everything the Go code calls but does not define (the
  peer-identity cryptosystem, \<^verbatim>\<open>verifyEnvelope\<close>, the \<^verbatim>\<open>handshake\<close> package, the
  transport) is either a parameter or part of an explicit transport state.
\<close>

subsection \<open>Bytes, envelopes and errors\<close>

type_synonym bytes = "8 word list"

text \<open>\<^verbatim>\<open>peer.ID\<close> is a Go string: a byte string compared with \<^verbatim>\<open>!=\<close> byte by byte.\<close>

type_synonym peer_ID = bytes

text \<open>The text of an error value made by a collaborator.\<close>

type_synonym go_error = string

text \<open>\<^verbatim>\<open>pb.HandshakeEnvelope\<close>: the three fields of the wire record.\<close>

record HandshakeEnvelope =
  Message :: bytes
  PeerID :: peer_ID
  Signature :: bytes

text \<open>What \<^verbatim>\<open>ReadMsg\<close> of the delimited reader can fail with.\<close>

datatype read_error = FrameOversize | MalformedEnvelope | TransportIO go_error

text \<open>
  Go error values carry no kind, only a text. The model tags every error with the call
  that made it: \<open>PinnedMismatch\<close> is the \<^verbatim>\<open>fmt.Errorf\<close> of \<^verbatim>\<open>verify\<close>
  ("pinned identity [..] does not match sender identity [..]"), the two wrappers are the
  \<^verbatim>\<open>fmt.Errorf\<close> calls of the two constructors, and the others are returned by
  collaborators.
\<close>

datatype error =
    PinnedMismatch peer_ID peer_ID
  | ReadMsgFailed read_error
  | WriteMsgFailed go_error
  | SignFailed go_error
  | VerifyEnvelopeFailed go_error
  | MarshalFailed go_error
  | UnmarshalFailed go_error
  | SubprotocolFailed go_error
  | CouldNotCreateOutbound go_error
  | HandshakeFailed error

subsection \<open>The transport\<close>

text \<open>
  A frame as the peer puts it on the wire: the length the decoder measures and what the
  bytes decode to (\<open>None\<close> when they are no envelope).
\<close>

record frame =
  encoded_len :: nat
  payload :: "HandshakeEnvelope option"

text \<open>What the transport yields to one read: a frame, or an I/O failure.\<close>

datatype inbound = Frame frame | ReadFault go_error

text \<open>What happens on the connection, in order.\<close>

datatype event =
    EvRead inbound
  | EvWrite HandshakeEnvelope "go_error option"
  | EvClose

text \<open>
  \<^verbatim>\<open>net.Conn\<close> as an explicit state: the frames still to arrive, the outcome of each
  write still to come (\<open>None\<close>, or an exhausted list, is a write that succeeds), whether
  \<^verbatim>\<open>Close\<close> was called, and the trace of everything done on the connection so far.
\<close>

record conn =
  incoming :: "inbound list"
  write_faults :: "go_error option list"
  conn_closed :: bool
  trace :: "event list"

definition maxFrameSize :: nat where
  "maxFrameSize = 1024"

text \<open>\<^verbatim>\<open>protoio.NewDelimitedReader(conn, maxSize)\<close>: the reader keeps the maximum size.\<close>

datatype ReadCloser = NewDelimitedReader (maxSize: nat)

text \<open>
  Modelled from the spec: the length-delimited reader of \<^verbatim>\<open>protoio\<close> is not among
  the sources. By the specification's envelope codec, \<^verbatim>\<open>read\<close> reads exactly one frame and
  rejects a frame larger than the maximum; a frame that is no envelope is malformed.
\<close>

definition decodeFrame :: "nat \<Rightarrow> inbound \<Rightarrow> read_error + HandshakeEnvelope" where
  "decodeFrame maxsz x =
     (case x of
        ReadFault e \<Rightarrow> Inl (TransportIO e)
      | Frame f \<Rightarrow>
          if encoded_len f > maxsz then Inl FrameOversize
          else (case payload f of
                  None \<Rightarrow> Inl MalformedEnvelope
                | Some env \<Rightarrow> Inr env))"

text \<open>What the next read of the connection meets, and what is left to arrive after it.\<close>

definition next_inbound :: "conn \<Rightarrow> inbound \<times> inbound list" where
  "next_inbound c =
     (if conn_closed c then (ReadFault ''use of closed network connection'', incoming c)
      else (case incoming c of
              [] \<Rightarrow> (ReadFault ''EOF'', [])
            | x # xs \<Rightarrow> (x, xs)))"

definition ReadMsg :: "ReadCloser \<Rightarrow> conn \<Rightarrow> (read_error + HandshakeEnvelope) \<times> conn" where
  "ReadMsg r c =
     (let (x, rest) = next_inbound c
      in (decodeFrame (maxSize r) x,
          c\<lparr>incoming := rest, trace := trace c @ [EvRead x]\<rparr>))"

definition next_write :: "conn \<Rightarrow> go_error option \<times> go_error option list" where
  "next_write c =
     (if conn_closed c then (Some ''use of closed network connection'', write_faults c)
      else (case write_faults c of
              [] \<Rightarrow> (None, [])
            | x # xs \<Rightarrow> (x, xs)))"

text \<open>\<^verbatim>\<open>WriteMsg\<close> of the delimited writer: one envelope, written or failed.\<close>

definition WriteMsg :: "HandshakeEnvelope \<Rightarrow> conn \<Rightarrow> go_error option \<times> conn" where
  "WriteMsg env c =
     (let (r, rest) = next_write c
      in (r, c\<lparr>write_faults := rest, trace := trace c @ [EvWrite env r]\<rparr>))"

definition Close :: "conn \<Rightarrow> conn" where
  "Close c = c\<lparr>conn_closed := True, trace := trace c @ [EvClose]\<rparr>"

text \<open>The events a run added to the trace, and the envelopes among them handed to a write.\<close>

definition new_events :: "conn \<Rightarrow> conn \<Rightarrow> event list" where
  "new_events c c' = drop (length (trace c)) (trace c')"

fun written :: "event list \<Rightarrow> HandshakeEnvelope list" where
  "written [] = []"
| "written (EvWrite env r # es) = env # written es"
| "written (EvRead x # es) = written es"
| "written (EvClose # es) = written es"

subsection \<open>Collaborators\<close>

text \<open>
  The peer-identity cryptosystem (\<^verbatim>\<open>libp2pcrypto\<close>, \<^verbatim>\<open>peer.ID.ExtractPublicKey\<close>) and
  \<^verbatim>\<open>verifyEnvelope\<close>, which the source calls and does not define: parameters.
  An error return is \<open>Inl\<close> (or \<open>Some\<close> where nothing else is returned).
\<close>

record ('sk, 'pk) crypto =
  Sign :: "'sk \<Rightarrow> bytes \<Rightarrow> go_error + bytes"
  ExtractPublicKey :: "peer_ID \<Rightarrow> go_error + 'pk"
  verifyEnvelope :: "peer_ID \<Rightarrow> bytes \<Rightarrow> bytes \<Rightarrow> go_error option"

text \<open>
  The initiator's side of package \<^verbatim>\<open>handshake\<close>. \<^verbatim>\<open>InitiateHandshake\<close> draws a nonce,
  so its outcome is given. \<open>'i1\<close>, \<open>'i2\<close>, \<open>'i3\<close> are the three initiator states and
  \<open>'m2\<close> is \<^verbatim>\<open>handshake.Act2Message\<close>.
\<close>

record ('i1, 'i2, 'i3, 'm2) initiator_handshake =
  InitiateHandshake :: "go_error + 'i1"
  initiatorAct1_Message_Marshal :: "'i1 \<Rightarrow> go_error + bytes"
  initiatorAct1_Next :: "'i1 \<Rightarrow> 'i2"
  Act2Message_Unmarshal :: "bytes \<Rightarrow> go_error + 'm2"
  initiatorAct2_Next :: "'i2 \<Rightarrow> 'm2 \<Rightarrow> go_error + 'i3"
  initiatorAct3_Message_Marshal :: "'i3 \<Rightarrow> go_error + bytes"

text \<open>
  The responder's side: \<open>'m1\<close> and \<open>'m3\<close> are \<^verbatim>\<open>handshake.Act1Message\<close> and
  \<^verbatim>\<open>handshake.Act3Message\<close>, \<open>'r2\<close> and \<open>'r3\<close> the two responder states.
\<close>

record ('r2, 'r3, 'm1, 'm3) responder_handshake =
  Act1Message_Unmarshal :: "bytes \<Rightarrow> go_error + 'm1"
  AnswerHandshake :: "'m1 \<Rightarrow> go_error + 'r2"
  responderAct2_Message_Marshal :: "'r2 \<Rightarrow> go_error + bytes"
  responderAct2_Next :: "'r2 \<Rightarrow> 'r3"
  Act3Message_Unmarshal :: "bytes \<Rightarrow> go_error + 'm3"
  FinalizeHandshake :: "'r3 \<Rightarrow> 'm3 \<Rightarrow> go_error option"

subsection \<open>The authenticated connection\<close>

text \<open>
  \<^verbatim>\<open>authenticatedConnection\<close>. A field the constructor leaves out has Go's zero value:
  the empty string for \<open>remotePeerID\<close>, nil for \<open>remotePeerPublicKey\<close>.
\<close>

record ('sk, 'pk) authenticatedConnection =
  Conn :: conn
  localPeerID :: peer_ID
  localPeerPrivateKey :: 'sk
  remotePeerID :: peer_ID
  remotePeerPublicKey :: "'pk option"

text \<open>
  \<^verbatim>\<open>verify\<close>: the pinned identity against the sender's, then the signature. (Its
  receiver is not used.)
\<close>

definition verify ::
  "('sk, 'pk) crypto \<Rightarrow> peer_ID \<Rightarrow> peer_ID \<Rightarrow> bytes \<Rightarrow> bytes \<Rightarrow> error option" where
  "verify cr pinned sender messageBytes signatureBytes =
     (if pinned \<noteq> sender then Some (PinnedMismatch pinned sender)
      else map_option VerifyEnvelopeFailed
             (verifyEnvelope cr sender messageBytes signatureBytes))"

text \<open>
  The three senders sign the marshalled act, build the envelope and write it. The
  writer argument of the source holds nothing but the connection, which is in \<open>ac\<close>.
\<close>

definition initiatorSendAct1 ::
  "('sk, 'pk) crypto \<Rightarrow> ('sk, 'pk) authenticatedConnection \<Rightarrow> bytes
   \<Rightarrow> error option \<times> ('sk, 'pk) authenticatedConnection" where
  "initiatorSendAct1 cr ac act1WireMessage =
     (case Sign cr (localPeerPrivateKey ac) act1WireMessage of
        Inl e \<Rightarrow> (Some (SignFailed e), ac)
      | Inr signedAct1Message \<Rightarrow>
          (let act1Envelope = \<lparr>Message = act1WireMessage,
                               PeerID = localPeerID ac,
                               Signature = signedAct1Message\<rparr>;
               (r, c) = WriteMsg act1Envelope (Conn ac)
           in (map_option WriteMsgFailed r, ac\<lparr>Conn := c\<rparr>)))"

definition initiatorSendAct3 ::
  "('sk, 'pk) crypto \<Rightarrow> ('sk, 'pk) authenticatedConnection \<Rightarrow> bytes
   \<Rightarrow> error option \<times> ('sk, 'pk) authenticatedConnection" where
  "initiatorSendAct3 cr ac act3WireMessage =
     (case Sign cr (localPeerPrivateKey ac) act3WireMessage of
        Inl e \<Rightarrow> (Some (SignFailed e), ac)
      | Inr signedAct3Message \<Rightarrow>
          (let act3Envelope = \<lparr>Message = act3WireMessage,
                               PeerID = localPeerID ac,
                               Signature = signedAct3Message\<rparr>;
               (r, c) = WriteMsg act3Envelope (Conn ac)
           in (map_option WriteMsgFailed r, ac\<lparr>Conn := c\<rparr>)))"

definition responderSendAct2 ::
  "('sk, 'pk) crypto \<Rightarrow> ('sk, 'pk) authenticatedConnection \<Rightarrow> bytes
   \<Rightarrow> error option \<times> ('sk, 'pk) authenticatedConnection" where
  "responderSendAct2 cr ac act2WireMessage =
     (case Sign cr (localPeerPrivateKey ac) act2WireMessage of
        Inl e \<Rightarrow> (Some (SignFailed e), ac)
      | Inr signedAct2Message \<Rightarrow>
          (let act2Envelope = \<lparr>Message = act2WireMessage,
                               PeerID = localPeerID ac,
                               Signature = signedAct2Message\<rparr>;
               (r, c) = WriteMsg act2Envelope (Conn ac)
           in (map_option WriteMsgFailed r, ac\<lparr>Conn := c\<rparr>)))"

text \<open>\<^verbatim>\<open>initiatorReceiveAct2\<close>: read, verify against the known remote identity, unmarshal.\<close>

definition initiatorReceiveAct2 ::
  "('sk, 'pk) crypto \<Rightarrow> ('i1, 'i2, 'i3, 'm2) initiator_handshake
   \<Rightarrow> ('sk, 'pk) authenticatedConnection \<Rightarrow> ReadCloser
   \<Rightarrow> (error + 'm2) \<times> ('sk, 'pk) authenticatedConnection" where
  "initiatorReceiveAct2 cr hs ac initiatorConnectionReader =
     (case ReadMsg initiatorConnectionReader (Conn ac) of
        (Inl e, c) \<Rightarrow> (Inl (ReadMsgFailed e), ac\<lparr>Conn := c\<rparr>)
      | (Inr act2Envelope, c) \<Rightarrow>
          (let ac = ac\<lparr>Conn := c\<rparr>
           in case verify cr (remotePeerID ac) (PeerID act2Envelope)
                     (Message act2Envelope) (Signature act2Envelope) of
                Some e \<Rightarrow> (Inl e, ac)
              | None \<Rightarrow>
                  (case Act2Message_Unmarshal hs (Message act2Envelope) of
                     Inl e \<Rightarrow> (Inl (UnmarshalFailed e), ac)
                   | Inr act2Message \<Rightarrow> (Inr act2Message, ac))))"

text \<open>
  \<^verbatim>\<open>responderReceiveAct1\<close>: read, adopt the envelope's peer id as the remote identity,
  verify, unmarshal.
\<close>

definition responderReceiveAct1 ::
  "('sk, 'pk) crypto \<Rightarrow> ('r2, 'r3, 'm1, 'm3) responder_handshake
   \<Rightarrow> ('sk, 'pk) authenticatedConnection \<Rightarrow> ReadCloser
   \<Rightarrow> (error + 'm1) \<times> ('sk, 'pk) authenticatedConnection" where
  "responderReceiveAct1 cr hs ac responderConnectionReader =
     (case ReadMsg responderConnectionReader (Conn ac) of
        (Inl e, c) \<Rightarrow> (Inl (ReadMsgFailed e), ac\<lparr>Conn := c\<rparr>)
      | (Inr act1Envelope, c) \<Rightarrow>
          (let ac = ac\<lparr>Conn := c, remotePeerID := PeerID act1Envelope\<rparr>
           in case verify cr (remotePeerID ac) (PeerID act1Envelope)
                     (Message act1Envelope) (Signature act1Envelope) of
                Some e \<Rightarrow> (Inl e, ac)
              | None \<Rightarrow>
                  (case Act1Message_Unmarshal hs (Message act1Envelope) of
                     Inl e \<Rightarrow> (Inl (UnmarshalFailed e), ac)
                   | Inr act1Message \<Rightarrow> (Inr act1Message, ac))))"

text \<open>\<^verbatim>\<open>responderReceiveAct3\<close>: read, verify against the pinned identity, unmarshal.\<close>

definition responderReceiveAct3 ::
  "('sk, 'pk) crypto \<Rightarrow> ('r2, 'r3, 'm1, 'm3) responder_handshake
   \<Rightarrow> ('sk, 'pk) authenticatedConnection \<Rightarrow> ReadCloser
   \<Rightarrow> (error + 'm3) \<times> ('sk, 'pk) authenticatedConnection" where
  "responderReceiveAct3 cr hs ac responderConnectionReader =
     (case ReadMsg responderConnectionReader (Conn ac) of
        (Inl e, c) \<Rightarrow> (Inl (ReadMsgFailed e), ac\<lparr>Conn := c\<rparr>)
      | (Inr act3Envelope, c) \<Rightarrow>
          (let ac = ac\<lparr>Conn := c\<rparr>
           in case verify cr (remotePeerID ac) (PeerID act3Envelope)
                     (Message act3Envelope) (Signature act3Envelope) of
                Some e \<Rightarrow> (Inl e, ac)
              | None \<Rightarrow>
                  (case Act3Message_Unmarshal hs (Message act3Envelope) of
                     Inl e \<Rightarrow> (Inl (UnmarshalFailed e), ac)
                   | Inr act3Message \<Rightarrow> (Inr act3Message, ac))))"

subsection \<open>The two tracks\<close>

definition runHandshakeAsInitiator ::
  "('sk, 'pk) crypto \<Rightarrow> ('i1, 'i2, 'i3, 'm2) initiator_handshake
   \<Rightarrow> ('sk, 'pk) authenticatedConnection
   \<Rightarrow> error option \<times> ('sk, 'pk) authenticatedConnection" where
  "runHandshakeAsInitiator cr hs ac =
     (let initiatorConnectionReader = NewDelimitedReader maxFrameSize
      in case InitiateHandshake hs of
           Inl e \<Rightarrow> (Some (SubprotocolFailed e), ac)
         | Inr initiatorAct1 \<Rightarrow>
       (case initiatorAct1_Message_Marshal hs initiatorAct1 of
           Inl e \<Rightarrow> (Some (MarshalFailed e), ac)
         | Inr act1WireMessage \<Rightarrow>
       (case initiatorSendAct1 cr ac act1WireMessage of
           (Some e, ac) \<Rightarrow> (Some e, ac)
         | (None, ac) \<Rightarrow>
       (let initiatorAct2 = initiatorAct1_Next hs initiatorAct1
        in case initiatorReceiveAct2 cr hs ac initiatorConnectionReader of
           (Inl e, ac) \<Rightarrow> (Some e, ac)
         | (Inr act2Message, ac) \<Rightarrow>
       (case initiatorAct2_Next hs initiatorAct2 act2Message of
           Inl e \<Rightarrow> (Some (SubprotocolFailed e), ac)
         | Inr initiatorAct3 \<Rightarrow>
       (case initiatorAct3_Message_Marshal hs initiatorAct3 of
           Inl e \<Rightarrow> (Some (MarshalFailed e), ac)
         | Inr act3WireMessage \<Rightarrow>
             initiatorSendAct3 cr ac act3WireMessage))))))"

definition runHandshakeAsResponder ::
  "('sk, 'pk) crypto \<Rightarrow> ('r2, 'r3, 'm1, 'm3) responder_handshake
   \<Rightarrow> ('sk, 'pk) authenticatedConnection
   \<Rightarrow> error option \<times> ('sk, 'pk) authenticatedConnection" where
  "runHandshakeAsResponder cr hs ac =
     (let responderConnectionReader = NewDelimitedReader maxFrameSize
      in case responderReceiveAct1 cr hs ac responderConnectionReader of
           (Inl e, ac) \<Rightarrow> (Some e, ac)
         | (Inr act1Message, ac) \<Rightarrow>
       (case AnswerHandshake hs act1Message of
           Inl e \<Rightarrow> (Some (SubprotocolFailed e), ac)
         | Inr responderAct2 \<Rightarrow>
       (case responderAct2_Message_Marshal hs responderAct2 of
           Inl e \<Rightarrow> (Some (MarshalFailed e), ac)
         | Inr act2WireMessage \<Rightarrow>
       (case responderSendAct2 cr ac act2WireMessage of
           (Some e, ac) \<Rightarrow> (Some e, ac)
         | (None, ac) \<Rightarrow>
       (let responderAct3 = responderAct2_Next hs responderAct2
        in case responderReceiveAct3 cr hs ac responderConnectionReader of
           (Inl e, ac) \<Rightarrow> (Some e, ac)
         | (Inr act3Message, ac) \<Rightarrow>
             (map_option SubprotocolFailed
                (FinalizeHandshake hs responderAct3 act3Message), ac))))))"

subsection \<open>The two constructors\<close>

text \<open>
  Both return the connection object or an error; the transport is shared with the
  caller, so its state after the call is returned beside the result.
  \<^verbatim>\<open>newAuthenticatedInboundConnection\<close> does not use its \<^verbatim>\<open>remotePeerID\<close> argument.
\<close>

definition newAuthenticatedInboundConnection ::
  "('sk, 'pk) crypto \<Rightarrow> ('r2, 'r3, 'm1, 'm3) responder_handshake
   \<Rightarrow> conn \<Rightarrow> peer_ID \<Rightarrow> 'sk \<Rightarrow> peer_ID
   \<Rightarrow> (error + ('sk, 'pk) authenticatedConnection) \<times> conn" where
  "newAuthenticatedInboundConnection cr hs unauthenticatedConn localPeerID' privateKey
       remotePeerID' =
     (let ac = \<lparr>Conn = unauthenticatedConn,
                localPeerID = localPeerID',
                localPeerPrivateKey = privateKey,
                remotePeerID = [],
                remotePeerPublicKey = None\<rparr>
      in case runHandshakeAsResponder cr hs ac of
           (Some err, ac) \<Rightarrow> (Inl (HandshakeFailed err), Close (Conn ac))
         | (None, ac) \<Rightarrow> (Inr ac, Conn ac))"

definition newAuthenticatedOutboundConnection ::
  "('sk, 'pk) crypto \<Rightarrow> ('i1, 'i2, 'i3, 'm2) initiator_handshake
   \<Rightarrow> conn \<Rightarrow> peer_ID \<Rightarrow> 'sk \<Rightarrow> peer_ID
   \<Rightarrow> (error + ('sk, 'pk) authenticatedConnection) \<times> conn" where
  "newAuthenticatedOutboundConnection cr hs unauthenticatedConn localPeerID' privateKey
       remotePeerID' =
     (case ExtractPublicKey cr remotePeerID' of
        Inl err \<Rightarrow> (Inl (CouldNotCreateOutbound err), unauthenticatedConn)
      | Inr remotePublicKey \<Rightarrow>
          (let ac = \<lparr>Conn = unauthenticatedConn,
                     localPeerID = localPeerID',
                     localPeerPrivateKey = privateKey,
                     remotePeerID = remotePeerID',
                     remotePeerPublicKey = Some remotePublicKey\<rparr>
           in case runHandshakeAsInitiator cr hs ac of
                (Some err, ac) \<Rightarrow> (Inl (HandshakeFailed err), Close (Conn ac))
              | (None, ac) \<Rightarrow> (Inr ac, Conn ac)))"

subsection \<open>A concrete instance\<close>

text \<open>
  A toy identity system and sub-protocol on which the model runs: the private key of a
  peer is its identity, a signature is the key followed by the message, and the three acts
  carry the bytes 1, 2 and 3. They serve to evaluate the definitions on concrete runs.
\<close>

definition example_crypto :: "(bytes, bytes) crypto" where
  "example_crypto =
     \<lparr>Sign = (\<lambda>sk m. if sk = [] then Inl ''no key'' else Inr (sk @ m)),
      ExtractPublicKey = (\<lambda>p. if p = [] then Inl ''no public key in peer id'' else Inr p),
      verifyEnvelope = (\<lambda>sender m s. if s = sender @ m then None else Some ''invalid signature'')\<rparr>"

definition example_initiator :: "(nat, nat, nat, bytes) initiator_handshake" where
  "example_initiator =
     \<lparr>InitiateHandshake = Inr 1,
      initiatorAct1_Message_Marshal = (\<lambda>i1. Inr [1]),
      initiatorAct1_Next = (\<lambda>i1. 2),
      Act2Message_Unmarshal = (\<lambda>b. if b = [] then Inl ''empty message'' else Inr b),
      initiatorAct2_Next = (\<lambda>i2 m2. if m2 = [2] then Inr 3 else Inl ''unexpected challenge''),
      initiatorAct3_Message_Marshal = (\<lambda>i3. Inr [3])\<rparr>"

definition example_responder :: "(nat, nat, bytes, bytes) responder_handshake" where
  "example_responder =
     \<lparr>Act1Message_Unmarshal = (\<lambda>b. if b = [] then Inl ''empty message'' else Inr b),
      AnswerHandshake = (\<lambda>m1. if m1 = [1] then Inr 2 else Inl ''unexpected nonce''),
      responderAct2_Message_Marshal = (\<lambda>r2. Inr [2]),
      responderAct2_Next = (\<lambda>r2. 3),
      Act3Message_Unmarshal = (\<lambda>b. if b = [] then Inl ''empty message'' else Inr b),
      FinalizeHandshake = (\<lambda>r3 m3. if m3 = [3] then None else Some ''unexpected challenge'')\<rparr>"

definition fresh_conn :: "inbound list \<Rightarrow> conn" where
  "fresh_conn xs = \<lparr>incoming = xs, write_faults = [], conn_closed = False, trace = []\<rparr>"

definition signed_by :: "peer_ID \<Rightarrow> bytes \<Rightarrow> HandshakeEnvelope" where
  "signed_by p m = \<lparr>Message = m, PeerID = p, Signature = p @ m\<rparr>"

definition framed :: "nat \<Rightarrow> HandshakeEnvelope \<Rightarrow> inbound" where
  "framed n env = Frame \<lparr>encoded_len = n, payload = Some env\<rparr>"

section \<open>Properties\<close>

subsection \<open>Steps and runs\<close>

lemma runHandshakeAsInitiator_cases [consumes 1, case_names initiate marshal1 send1 receive2 next2 marshal3 send3]:
  assumes "runHandshakeAsInitiator cr hs ac = (r, ac')"
  obtains
    e where "InitiateHandshake hs = Inl e" "r = Some (SubprotocolFailed e)" "ac' = ac"
  | i1 e where "InitiateHandshake hs = Inr i1"
      "initiatorAct1_Message_Marshal hs i1 = Inl e" "r = Some (MarshalFailed e)" "ac' = ac"
  | i1 w1 e where "InitiateHandshake hs = Inr i1"
      "initiatorAct1_Message_Marshal hs i1 = Inr w1"
      "initiatorSendAct1 cr ac w1 = (Some e, ac')" "r = Some e"
  | i1 w1 ac1 e where "InitiateHandshake hs = Inr i1"
      "initiatorAct1_Message_Marshal hs i1 = Inr w1"
      "initiatorSendAct1 cr ac w1 = (None, ac1)"
      "initiatorReceiveAct2 cr hs ac1 (NewDelimitedReader maxFrameSize) = (Inl e, ac')"
      "r = Some e"
  | i1 w1 ac1 m2 e where "InitiateHandshake hs = Inr i1"
      "initiatorAct1_Message_Marshal hs i1 = Inr w1"
      "initiatorSendAct1 cr ac w1 = (None, ac1)"
      "initiatorReceiveAct2 cr hs ac1 (NewDelimitedReader maxFrameSize) = (Inr m2, ac')"
      "initiatorAct2_Next hs (initiatorAct1_Next hs i1) m2 = Inl e"
      "r = Some (SubprotocolFailed e)"
  | i1 w1 ac1 m2 i3 e where "InitiateHandshake hs = Inr i1"
      "initiatorAct1_Message_Marshal hs i1 = Inr w1"
      "initiatorSendAct1 cr ac w1 = (None, ac1)"
      "initiatorReceiveAct2 cr hs ac1 (NewDelimitedReader maxFrameSize) = (Inr m2, ac')"
      "initiatorAct2_Next hs (initiatorAct1_Next hs i1) m2 = Inr i3"
      "initiatorAct3_Message_Marshal hs i3 = Inl e"
      "r = Some (MarshalFailed e)"
  | i1 w1 ac1 m2 ac2 i3 w3 where "InitiateHandshake hs = Inr i1"
      "initiatorAct1_Message_Marshal hs i1 = Inr w1"
      "initiatorSendAct1 cr ac w1 = (None, ac1)"
      "initiatorReceiveAct2 cr hs ac1 (NewDelimitedReader maxFrameSize) = (Inr m2, ac2)"
      "initiatorAct2_Next hs (initiatorAct1_Next hs i1) m2 = Inr i3"
      "initiatorAct3_Message_Marshal hs i3 = Inr w3"
      "initiatorSendAct3 cr ac2 w3 = (r, ac')"
  using assms unfolding runHandshakeAsInitiator_def Let_def
  by (auto split: sum.splits prod.splits option.splits)

lemma runHandshakeAsResponder_cases [consumes 1, case_names receive1 answer marshal2 send2 receive3 finalize]:
  assumes "runHandshakeAsResponder cr hs ac = (r, ac')"
  obtains
    e where "responderReceiveAct1 cr hs ac (NewDelimitedReader maxFrameSize) = (Inl e, ac')"
      "r = Some e"
  | m1 e where "responderReceiveAct1 cr hs ac (NewDelimitedReader maxFrameSize) = (Inr m1, ac')"
      "AnswerHandshake hs m1 = Inl e" "r = Some (SubprotocolFailed e)"
  | m1 r2 e where "responderReceiveAct1 cr hs ac (NewDelimitedReader maxFrameSize) = (Inr m1, ac')"
      "AnswerHandshake hs m1 = Inr r2"
      "responderAct2_Message_Marshal hs r2 = Inl e" "r = Some (MarshalFailed e)"
  | m1 ac1 r2 w2 e where "responderReceiveAct1 cr hs ac (NewDelimitedReader maxFrameSize) = (Inr m1, ac1)"
      "AnswerHandshake hs m1 = Inr r2"
      "responderAct2_Message_Marshal hs r2 = Inr w2"
      "responderSendAct2 cr ac1 w2 = (Some e, ac')" "r = Some e"
  | m1 ac1 r2 w2 ac2 e where "responderReceiveAct1 cr hs ac (NewDelimitedReader maxFrameSize) = (Inr m1, ac1)"
      "AnswerHandshake hs m1 = Inr r2"
      "responderAct2_Message_Marshal hs r2 = Inr w2"
      "responderSendAct2 cr ac1 w2 = (None, ac2)"
      "responderReceiveAct3 cr hs ac2 (NewDelimitedReader maxFrameSize) = (Inl e, ac')"
      "r = Some e"
  | m1 ac1 r2 w2 ac2 m3 where "responderReceiveAct1 cr hs ac (NewDelimitedReader maxFrameSize) = (Inr m1, ac1)"
      "AnswerHandshake hs m1 = Inr r2"
      "responderAct2_Message_Marshal hs r2 = Inr w2"
      "responderSendAct2 cr ac1 w2 = (None, ac2)"
      "responderReceiveAct3 cr hs ac2 (NewDelimitedReader maxFrameSize) = (Inr m3, ac')"
      "r = map_option SubprotocolFailed (FinalizeHandshake hs (responderAct2_Next hs r2) m3)"
  using assms unfolding runHandshakeAsResponder_def Let_def
  by (auto split: sum.splits prod.splits option.splits)

lemma new_events_append: "trace c' = trace c @ evs \<Longrightarrow> new_events c c' = evs"
  by (simp add: new_events_def)

lemma new_events_same [simp]: "new_events c c = []"
  by (simp add: new_events_def)

lemma ReadMsg_sound:
  "ReadMsg r c = (res, c') \<Longrightarrow>
     \<exists>x. trace c' = trace c @ [EvRead x] \<and> res = decodeFrame (maxSize r) x
        \<and> conn_closed c' = conn_closed c"
  by (auto simp: ReadMsg_def split: prod.splits)

lemma WriteMsg_sound:
  "WriteMsg env c = (r, c') \<Longrightarrow>
     trace c' = trace c @ [EvWrite env r] \<and> conn_closed c' = conn_closed c"
  by (auto simp: WriteMsg_def split: prod.splits)

lemma initiatorSendAct1_sound:
  "initiatorSendAct1 cr ac w = (r, ac') \<Longrightarrow>
     localPeerID ac' = localPeerID ac \<and> localPeerPrivateKey ac' = localPeerPrivateKey ac \<and>
     remotePeerID ac' = remotePeerID ac \<and> conn_closed (Conn ac') = conn_closed (Conn ac) \<and>
     (case Sign cr (localPeerPrivateKey ac) w of
        Inl e \<Rightarrow> r = Some (SignFailed e) \<and> trace (Conn ac') = trace (Conn ac)
      | Inr s \<Rightarrow> \<exists>wr. map_option WriteMsgFailed wr = r \<and>
          trace (Conn ac') = trace (Conn ac) @
             [EvWrite \<lparr>Message = w, PeerID = localPeerID ac, Signature = s\<rparr> wr])"
  by (auto simp: initiatorSendAct1_def dest: WriteMsg_sound split: sum.splits prod.splits)

lemma initiatorSendAct3_sound:
  "initiatorSendAct3 cr ac w = (r, ac') \<Longrightarrow>
     localPeerID ac' = localPeerID ac \<and> localPeerPrivateKey ac' = localPeerPrivateKey ac \<and>
     remotePeerID ac' = remotePeerID ac \<and> conn_closed (Conn ac') = conn_closed (Conn ac) \<and>
     (case Sign cr (localPeerPrivateKey ac) w of
        Inl e \<Rightarrow> r = Some (SignFailed e) \<and> trace (Conn ac') = trace (Conn ac)
      | Inr s \<Rightarrow> \<exists>wr. map_option WriteMsgFailed wr = r \<and>
          trace (Conn ac') = trace (Conn ac) @
             [EvWrite \<lparr>Message = w, PeerID = localPeerID ac, Signature = s\<rparr> wr])"
  by (auto simp: initiatorSendAct3_def dest: WriteMsg_sound split: sum.splits prod.splits)

lemma responderSendAct2_sound:
  "responderSendAct2 cr ac w = (r, ac') \<Longrightarrow>
     localPeerID ac' = localPeerID ac \<and> localPeerPrivateKey ac' = localPeerPrivateKey ac \<and>
     remotePeerID ac' = remotePeerID ac \<and> conn_closed (Conn ac') = conn_closed (Conn ac) \<and>
     (case Sign cr (localPeerPrivateKey ac) w of
        Inl e \<Rightarrow> r = Some (SignFailed e) \<and> trace (Conn ac') = trace (Conn ac)
      | Inr s \<Rightarrow> \<exists>wr. map_option WriteMsgFailed wr = r \<and>
          trace (Conn ac') = trace (Conn ac) @
             [EvWrite \<lparr>Message = w, PeerID = localPeerID ac, Signature = s\<rparr> wr])"
  by (auto simp: responderSendAct2_def dest: WriteMsg_sound split: sum.splits prod.splits)

lemma initiatorReceiveAct2_sound:
  "initiatorReceiveAct2 cr hs ac rd = (res, ac') \<Longrightarrow>
     localPeerID ac' = localPeerID ac \<and> localPeerPrivateKey ac' = localPeerPrivateKey ac \<and>
     remotePeerID ac' = remotePeerID ac \<and> conn_closed (Conn ac') = conn_closed (Conn ac) \<and>
     (\<exists>x. trace (Conn ac') = trace (Conn ac) @ [EvRead x] \<and>
        res = (case decodeFrame (maxSize rd) x of
                 Inl e \<Rightarrow> Inl (ReadMsgFailed e)
               | Inr env \<Rightarrow>
                  (case verify cr (remotePeerID ac) (PeerID env) (Message env) (Signature env) of
                     Some e \<Rightarrow> Inl e
                   | None \<Rightarrow>
                      (case Act2Message_Unmarshal hs (Message env) of
                         Inl e \<Rightarrow> Inl (UnmarshalFailed e)
                       | Inr m \<Rightarrow> Inr m))))"
  by (auto simp: initiatorReceiveAct2_def Let_def dest!: ReadMsg_sound
           split: sum.splits prod.splits option.splits)

lemma responderReceiveAct3_sound:
  "responderReceiveAct3 cr hs ac rd = (res, ac') \<Longrightarrow>
     localPeerID ac' = localPeerID ac \<and> localPeerPrivateKey ac' = localPeerPrivateKey ac \<and>
     remotePeerID ac' = remotePeerID ac \<and> conn_closed (Conn ac') = conn_closed (Conn ac) \<and>
     (\<exists>x. trace (Conn ac') = trace (Conn ac) @ [EvRead x] \<and>
        res = (case decodeFrame (maxSize rd) x of
                 Inl e \<Rightarrow> Inl (ReadMsgFailed e)
               | Inr env \<Rightarrow>
                  (case verify cr (remotePeerID ac) (PeerID env) (Message env) (Signature env) of
                     Some e \<Rightarrow> Inl e
                   | None \<Rightarrow>
                      (case Act3Message_Unmarshal hs (Message env) of
                         Inl e \<Rightarrow> Inl (UnmarshalFailed e)
                       | Inr m \<Rightarrow> Inr m))))"
  by (auto simp: responderReceiveAct3_def Let_def dest!: ReadMsg_sound
           split: sum.splits prod.splits option.splits)

lemma responderReceiveAct1_sound:
  "responderReceiveAct1 cr hs ac rd = (res, ac') \<Longrightarrow>
     localPeerID ac' = localPeerID ac \<and> localPeerPrivateKey ac' = localPeerPrivateKey ac \<and>
     conn_closed (Conn ac') = conn_closed (Conn ac) \<and>
     (\<exists>x. trace (Conn ac') = trace (Conn ac) @ [EvRead x] \<and>
        (case decodeFrame (maxSize rd) x of
           Inl e \<Rightarrow> res = Inl (ReadMsgFailed e) \<and> remotePeerID ac' = remotePeerID ac
         | Inr env \<Rightarrow> remotePeerID ac' = PeerID env \<and>
             res = (case verify cr (PeerID env) (PeerID env) (Message env) (Signature env) of
                     Some e \<Rightarrow> Inl e
                   | None \<Rightarrow>
                      (case Act1Message_Unmarshal hs (Message env) of
                         Inl e \<Rightarrow> Inl (UnmarshalFailed e)
                       | Inr m \<Rightarrow> Inr m))))"
  by (auto simp: responderReceiveAct1_def Let_def dest!: ReadMsg_sound
           split: sum.splits prod.splits option.splits)

lemma newAuthenticatedOutboundConnection_cases [consumes 1, case_names no_key aborted upgraded]:
  assumes "newAuthenticatedOutboundConnection cr hs c lid sk R = (res, c')"
  obtains
    e where "ExtractPublicKey cr R = Inl e" "res = Inl (CouldNotCreateOutbound e)" "c' = c"
  | pk e ac' where "ExtractPublicKey cr R = Inr pk"
      "runHandshakeAsInitiator cr hs
         \<lparr>Conn = c, localPeerID = lid, localPeerPrivateKey = sk, remotePeerID = R,
          remotePeerPublicKey = Some pk\<rparr> = (Some e, ac')"
      "res = Inl (HandshakeFailed e)" "c' = Close (Conn ac')"
  | pk ac' where "ExtractPublicKey cr R = Inr pk"
      "runHandshakeAsInitiator cr hs
         \<lparr>Conn = c, localPeerID = lid, localPeerPrivateKey = sk, remotePeerID = R,
          remotePeerPublicKey = Some pk\<rparr> = (None, ac')"
      "res = Inr ac'" "c' = Conn ac'"
  using assms unfolding newAuthenticatedOutboundConnection_def Let_def
  by (auto split: sum.splits prod.splits option.splits)

lemma newAuthenticatedInboundConnection_cases [consumes 1, case_names aborted upgraded]:
  assumes "newAuthenticatedInboundConnection cr hs c lid sk R = (res, c')"
  obtains
    e ac' where
      "runHandshakeAsResponder cr hs
         \<lparr>Conn = c, localPeerID = lid, localPeerPrivateKey = sk, remotePeerID = [],
          remotePeerPublicKey = None\<rparr> = (Some e, ac')"
      "res = Inl (HandshakeFailed e)" "c' = Close (Conn ac')"
  | ac' where
      "runHandshakeAsResponder cr hs
         \<lparr>Conn = c, localPeerID = lid, localPeerPrivateKey = sk, remotePeerID = [],
          remotePeerPublicKey = None\<rparr> = (None, ac')"
      "res = Inr ac'" "c' = Conn ac'"
  using assms unfolding newAuthenticatedInboundConnection_def Let_def
  by (auto split: sum.splits prod.splits option.splits)

text \<open>The events of an initiator run, by how far it got.\<close>

lemma runHandshakeAsInitiator_events:
  assumes "runHandshakeAsInitiator cr hs ac = (r, ac')"
  shows "conn_closed (Conn ac') = conn_closed (Conn ac) \<and>
     remotePeerID ac' = remotePeerID ac \<and> localPeerID ac' = localPeerID ac \<and>
     (\<exists>evs. trace (Conn ac') = trace (Conn ac) @ evs \<and>
       ((evs = [] \<and> r \<noteq> None) \<or>
        (\<exists>e1 wr. evs = [EvWrite e1 (Some wr)] \<and> r = Some (WriteMsgFailed wr)) \<or>
        (\<exists>e1 x. evs = [EvWrite e1 None, EvRead x] \<and> r \<noteq> None \<and>
           (\<forall>e. decodeFrame maxFrameSize x = Inl e \<longrightarrow> r = Some (ReadMsgFailed e)) \<and>
           (\<forall>env. decodeFrame maxFrameSize x = Inr env \<and> PeerID env \<noteq> remotePeerID ac
                \<longrightarrow> r = Some (PinnedMismatch (remotePeerID ac) (PeerID env)))) \<or>
        (\<exists>i1 w1 s1 x env m2 i3 w3 s3 wr.
           evs = [EvWrite \<lparr>Message = w1, PeerID = localPeerID ac, Signature = s1\<rparr> None,
                  EvRead x,
                  EvWrite \<lparr>Message = w3, PeerID = localPeerID ac, Signature = s3\<rparr> wr] \<and>
           r = map_option WriteMsgFailed wr \<and>
           InitiateHandshake hs = Inr i1 \<and>
           initiatorAct1_Message_Marshal hs i1 = Inr w1 \<and>
           Sign cr (localPeerPrivateKey ac) w1 = Inr s1 \<and>
           decodeFrame maxFrameSize x = Inr env \<and>
           verify cr (remotePeerID ac) (PeerID env) (Message env) (Signature env) = None \<and>
           Act2Message_Unmarshal hs (Message env) = Inr m2 \<and>
           initiatorAct2_Next hs (initiatorAct1_Next hs i1) m2 = Inr i3 \<and>
           initiatorAct3_Message_Marshal hs i3 = Inr w3 \<and>
           Sign cr (localPeerPrivateKey ac) w3 = Inr s3)))"
  using assms
proof (cases rule: runHandshakeAsInitiator_cases)
  case (initiate e)
  then show ?thesis by simp
next
  case (marshal1 i1 e)
  then show ?thesis by simp
next
  case (send1 i1 w1 e)
  from initiatorSendAct1_sound[OF send1(3)] send1(4) show ?thesis
    by (auto split: sum.splits)
next
  case (receive2 i1 w1 ac1 e)
  from initiatorSendAct1_sound[OF receive2(3)] initiatorReceiveAct2_sound[OF receive2(4)] receive2(5)
  show ?thesis
    by (auto simp: verify_def split: sum.splits option.splits if_splits)
next
  case (next2 i1 w1 ac1 m2 e)
  from initiatorSendAct1_sound[OF next2(3)] initiatorReceiveAct2_sound[OF next2(4)] next2(6)
  show ?thesis
    by (auto simp: verify_def split: sum.splits option.splits if_splits)
next
  case (marshal3 i1 w1 ac1 m2 i3 e)
  from initiatorSendAct1_sound[OF marshal3(3)] initiatorReceiveAct2_sound[OF marshal3(4)] marshal3(7)
  show ?thesis
    by (auto simp: verify_def split: sum.splits option.splits if_splits)
next
  case (send3 i1 w1 ac1 m2 ac2 i3 w3)
  from initiatorSendAct1_sound[OF send3(3)] initiatorReceiveAct2_sound[OF send3(4)]
    initiatorSendAct3_sound[OF send3(7)] send3(1,2,5,6)
  show ?thesis
    apply (clarsimp split: sum.splits option.splits)
    apply (auto simp: verify_def split: if_splits)
    done
qed

lemma verify_same [simp]:
  "verify cr p p m s = map_option VerifyEnvelopeFailed (verifyEnvelope cr p m s)"
  by (simp add: verify_def)

lemma runHandshakeAsResponder_events:
  assumes "runHandshakeAsResponder cr hs ac = (r, ac')"
  shows "conn_closed (Conn ac') = conn_closed (Conn ac) \<and>
     localPeerID ac' = localPeerID ac \<and>
     (\<exists>x1 rest. trace (Conn ac') = trace (Conn ac) @ EvRead x1 # rest \<and>
       (\<forall>e. decodeFrame maxFrameSize x1 = Inl e \<longrightarrow>
          r = Some (ReadMsgFailed e) \<and> remotePeerID ac' = remotePeerID ac \<and> rest = []) \<and>
       (\<forall>env. decodeFrame maxFrameSize x1 = Inr env \<longrightarrow> remotePeerID ac' = PeerID env) \<and>
       ((rest = [] \<and> r \<noteq> None) \<or>
        (\<exists>env1 m1 r2 w2 s2.
           decodeFrame maxFrameSize x1 = Inr env1 \<and>
           verifyEnvelope cr (PeerID env1) (Message env1) (Signature env1) = None \<and>
           Act1Message_Unmarshal hs (Message env1) = Inr m1 \<and>
           AnswerHandshake hs m1 = Inr r2 \<and>
           responderAct2_Message_Marshal hs r2 = Inr w2 \<and>
           Sign cr (localPeerPrivateKey ac) w2 = Inr s2 \<and>
           ((\<exists>wr. rest = [EvWrite \<lparr>Message = w2, PeerID = localPeerID ac, Signature = s2\<rparr>
                             (Some wr)] \<and>
                  r = Some (WriteMsgFailed wr)) \<or>
            (\<exists>x3. rest = [EvWrite \<lparr>Message = w2, PeerID = localPeerID ac, Signature = s2\<rparr>
                             None, EvRead x3] \<and>
               (\<forall>e. decodeFrame maxFrameSize x3 = Inl e \<longrightarrow> r = Some (ReadMsgFailed e)) \<and>
               (\<forall>env3. decodeFrame maxFrameSize x3 = Inr env3 \<and> PeerID env3 \<noteq> PeerID env1
                   \<longrightarrow> r = Some (PinnedMismatch (PeerID env1) (PeerID env3))) \<and>
               (r = None \<longrightarrow>
                  (\<exists>env3 m3. decodeFrame maxFrameSize x3 = Inr env3 \<and>
                     verify cr (PeerID env1) (PeerID env3) (Message env3) (Signature env3) = None \<and>
                     Act3Message_Unmarshal hs (Message env3) = Inr m3 \<and>
                     FinalizeHandshake hs (responderAct2_Next hs r2) m3 = None)))))))"
  using assms
proof (cases rule: runHandshakeAsResponder_cases)
  case (receive1 e)
  from responderReceiveAct1_sound[OF receive1(1)] obtain x where
    x: "trace (Conn ac') = trace (Conn ac) @ [EvRead x]" by blast
  from responderReceiveAct1_sound[OF receive1(1)] x receive1(2) show ?thesis
    apply (intro conjI)
      apply simp
     apply simp
    apply (rule exI[of _ x], rule exI[of _ "[]::event list"])
    apply (auto split: sum.splits option.splits)
    done
next
  case (answer m1 e)
  from responderReceiveAct1_sound[OF answer(1)] obtain x where
    x: "trace (Conn ac') = trace (Conn ac) @ [EvRead x]" by blast
  from responderReceiveAct1_sound[OF answer(1)] x answer(2,3) show ?thesis
    apply (intro conjI)
      apply simp
     apply simp
    apply (rule exI[of _ x], rule exI[of _ "[]::event list"])
    apply (auto split: sum.splits option.splits)
    done
next
  case (marshal2 m1 r2 e)
  from responderReceiveAct1_sound[OF marshal2(1)] obtain x where
    x: "trace (Conn ac') = trace (Conn ac) @ [EvRead x]" by blast
  from responderReceiveAct1_sound[OF marshal2(1)] x marshal2(2,3,4) show ?thesis
    apply (intro conjI)
      apply simp
     apply simp
    apply (rule exI[of _ x], rule exI[of _ "[]::event list"])
    apply (auto split: sum.splits option.splits)
    done
next
  case (send2 m1 ac1 r2 w2 e)
  from responderReceiveAct1_sound[OF send2(1)] obtain x where
    x: "trace (Conn ac1) = trace (Conn ac) @ [EvRead x]" by blast
  show ?thesis
  proof (cases "Sign cr (localPeerPrivateKey ac1) w2")
    case (Inl se)
    with responderReceiveAct1_sound[OF send2(1)] responderSendAct2_sound[OF send2(4)] x send2(2,3,5)
    show ?thesis
      apply (intro conjI)
        apply simp
       apply simp
      apply (rule exI[of _ x], rule exI[of _ "[]::event list"])
      apply (auto split: sum.splits option.splits)
      done
  next
    case (Inr s2)
    with responderSendAct2_sound[OF send2(4)] send2(5) obtain wr where
      wr: "e = WriteMsgFailed wr"
        "trace (Conn ac') = trace (Conn ac1) @
           [EvWrite \<lparr>Message = w2, PeerID = localPeerID ac1, Signature = s2\<rparr> (Some wr)]"
      by auto
    with Inr responderReceiveAct1_sound[OF send2(1)] responderSendAct2_sound[OF send2(4)] x send2(2,3,5)
    show ?thesis
      apply (intro conjI)
        apply simp
       apply simp
      apply (rule exI[of _ x],
             rule exI[of _ "[EvWrite \<lparr>Message = w2, PeerID = localPeerID ac1, Signature = s2\<rparr> (Some wr)]"])
      apply (auto split: sum.splits option.splits)
      done
  qed
next
  case (receive3 m1 ac1 r2 w2 ac2 e)
  from responderReceiveAct1_sound[OF receive3(1)] obtain x where
    x: "trace (Conn ac1) = trace (Conn ac) @ [EvRead x]" by blast
  from responderSendAct2_sound[OF receive3(4)] obtain s2 where
    s2: "Sign cr (localPeerPrivateKey ac1) w2 = Inr s2"
      "trace (Conn ac2) = trace (Conn ac1) @
           [EvWrite \<lparr>Message = w2, PeerID = localPeerID ac1, Signature = s2\<rparr> None]"
    by (auto split: sum.splits)
  from responderReceiveAct3_sound[OF receive3(5)] obtain x3 where
    x3: "trace (Conn ac') = trace (Conn ac2) @ [EvRead x3]" by blast
  from responderReceiveAct1_sound[OF receive3(1)] responderSendAct2_sound[OF receive3(4)]
    responderReceiveAct3_sound[OF receive3(5)] receive3(2,3,6) x s2 x3
  show ?thesis
    apply (intro conjI)
      apply simp
     apply simp
    apply (rule exI[of _ x],
           rule exI[of _ "[EvWrite \<lparr>Message = w2, PeerID = localPeerID ac1, Signature = s2\<rparr> None, EvRead x3]"])
    apply (auto simp: verify_def split: sum.splits option.splits if_splits)
    done
next
  case (finalize m1 ac1 r2 w2 ac2 m3)
  from responderReceiveAct1_sound[OF finalize(1)] obtain x where
    x: "trace (Conn ac1) = trace (Conn ac) @ [EvRead x]" by blast
  from responderSendAct2_sound[OF finalize(4)] obtain s2 where
    s2: "Sign cr (localPeerPrivateKey ac1) w2 = Inr s2"
      "trace (Conn ac2) = trace (Conn ac1) @
           [EvWrite \<lparr>Message = w2, PeerID = localPeerID ac1, Signature = s2\<rparr> None]"
    by (auto split: sum.splits)
  from responderReceiveAct3_sound[OF finalize(5)] obtain x3 where
    x3: "trace (Conn ac') = trace (Conn ac2) @ [EvRead x3]" by blast
  from responderReceiveAct1_sound[OF finalize(1)] responderSendAct2_sound[OF finalize(4)]
    responderReceiveAct3_sound[OF finalize(5)] finalize(2,3,6) x s2 x3
  show ?thesis
    apply (intro conjI)
      apply simp
     apply simp
    apply (rule exI[of _ x],
           rule exI[of _ "[EvWrite \<lparr>Message = w2, PeerID = localPeerID ac1, Signature = s2\<rparr> None, EvRead x3]"])
    apply (auto simp: verify_def split: sum.splits option.splits if_splits)
    done
qed

lemmas model_defs =
  newAuthenticatedOutboundConnection_def newAuthenticatedInboundConnection_def
  runHandshakeAsInitiator_def runHandshakeAsResponder_def
  initiatorSendAct1_def initiatorSendAct3_def responderSendAct2_def
  initiatorReceiveAct2_def responderReceiveAct1_def responderReceiveAct3_def
  verify_def ReadMsg_def WriteMsg_def Close_def next_inbound_def next_write_def
  decodeFrame_def maxFrameSize_def new_events_def

lemmas example_defs =
  example_crypto_def example_initiator_def example_responder_def fresh_conn_def
  signed_by_def framed_def

lemma written_append [simp]: "written (xs @ ys) = written xs @ written ys"
  by (induction xs rule: written.induct) simp_all

lemma decodeFrame_oversize:
  "maxsz < encoded_len f \<Longrightarrow> decodeFrame maxsz (Frame f) = Inl FrameOversize"
  by (simp add: decodeFrame_def)

subsection \<open>Runs of the concrete instance\<close>

lemma example_receive_act1_empty_id:
  "responderReceiveAct1 example_crypto example_responder
      \<lparr>Conn = fresh_conn [framed 10 (signed_by [] [1])], localPeerID = [11],
       localPeerPrivateKey = [11], remotePeerID = [9], remotePeerPublicKey = None\<rparr>
      (NewDelimitedReader maxFrameSize)
   = (Inr [1],
      \<lparr>Conn = \<lparr>incoming = [], write_faults = [], conn_closed = False,
               trace = [EvRead (framed 10 (signed_by [] [1]))]\<rparr>,
       localPeerID = [11], localPeerPrivateKey = [11], remotePeerID = [],
       remotePeerPublicKey = None\<rparr>)"
  by (simp add: model_defs example_defs)

lemma example_outbound_wrong_identity:
  "newAuthenticatedOutboundConnection example_crypto example_initiator
         (fresh_conn [framed 10 (signed_by [12] [2])]) [10] [10] [11]
   = (Inl (HandshakeFailed (PinnedMismatch [11] [12])),
      \<lparr>incoming = [], write_faults = [], conn_closed = True,
       trace = [EvWrite (signed_by [10] [1]) None,
                EvRead (framed 10 (signed_by [12] [2])),
                EvClose]\<rparr>)"
  by (simp add: model_defs example_defs)

lemma example_initiator_run:
  "runHandshakeAsInitiator example_crypto example_initiator
     \<lparr>Conn = fresh_conn [framed 10 (signed_by [11] [2])], localPeerID = [10],
      localPeerPrivateKey = [10], remotePeerID = [11], remotePeerPublicKey = Some [11]\<rparr>
   = (None,
      \<lparr>Conn = \<lparr>incoming = [], write_faults = [], conn_closed = False,
               trace = [EvWrite (signed_by [10] [1]) None,
                        EvRead (framed 10 (signed_by [11] [2])),
                        EvWrite (signed_by [10] [3]) None]\<rparr>,
       localPeerID = [10], localPeerPrivateKey = [10], remotePeerID = [11],
       remotePeerPublicKey = Some [11]\<rparr>)"
  by (simp add: model_defs example_defs)

lemma example_responder_bad_signature:
  "runHandshakeAsResponder example_crypto example_responder
     \<lparr>Conn = fresh_conn [Frame \<lparr>encoded_len = 10,
                 payload = Some \<lparr>Message = [1], PeerID = [10], Signature = [66]\<rparr>\<rparr>],
      localPeerID = [11], localPeerPrivateKey = [11], remotePeerID = [],
      remotePeerPublicKey = None\<rparr>
   = (Some (VerifyEnvelopeFailed ''invalid signature''),
      \<lparr>Conn = \<lparr>incoming = [], write_faults = [], conn_closed = False,
               trace = [EvRead (Frame \<lparr>encoded_len = 10,
                 payload = Some \<lparr>Message = [1], PeerID = [10], Signature = [66]\<rparr>\<rparr>)]\<rparr>,
       localPeerID = [11], localPeerPrivateKey = [11], remotePeerID = [10],
       remotePeerPublicKey = None\<rparr>)"
  by (simp add: model_defs example_defs)

lemma example_outbound_upgraded:
  "newAuthenticatedOutboundConnection example_crypto example_initiator
         (fresh_conn [framed 10 (signed_by [11] [2])]) [10] [10] [11]
   = (Inr \<lparr>Conn = \<lparr>incoming = [], write_faults = [], conn_closed = False,
               trace = [EvWrite (signed_by [10] [1]) None,
                        EvRead (framed 10 (signed_by [11] [2])),
                        EvWrite (signed_by [10] [3]) None]\<rparr>,
           localPeerID = [10], localPeerPrivateKey = [10], remotePeerID = [11],
           remotePeerPublicKey = Some [11]\<rparr>,
      \<lparr>incoming = [], write_faults = [], conn_closed = False,
       trace = [EvWrite (signed_by [10] [1]) None,
                EvRead (framed 10 (signed_by [11] [2])),
                EvWrite (signed_by [10] [3]) None]\<rparr>)"
  by (simp add: model_defs example_defs)

lemma example_inbound_upgraded:
  "newAuthenticatedInboundConnection example_crypto example_responder
         (fresh_conn [framed 10 (signed_by [10] [1]), framed 10 (signed_by [10] [3])])
         [11] [11] []
   = (Inr \<lparr>Conn = \<lparr>incoming = [], write_faults = [], conn_closed = False,
               trace = [EvRead (framed 10 (signed_by [10] [1])),
                        EvWrite (signed_by [11] [2]) None,
                        EvRead (framed 10 (signed_by [10] [3]))]\<rparr>,
           localPeerID = [11], localPeerPrivateKey = [11], remotePeerID = [10],
           remotePeerPublicKey = None\<rparr>,
      \<lparr>incoming = [], write_faults = [], conn_closed = False,
       trace = [EvRead (framed 10 (signed_by [10] [1])),
                EvWrite (signed_by [11] [2]) None,
                EvRead (framed 10 (signed_by [10] [3]))]\<rparr>)"
  by (simp add: model_defs example_defs)

lemma example_outbound_oversize:
  "newAuthenticatedOutboundConnection example_crypto example_initiator
         (fresh_conn [framed 1025 (signed_by [11] [2])]) [10] [10] [11]
   = (Inl (HandshakeFailed (ReadMsgFailed FrameOversize)),
      \<lparr>incoming = [], write_faults = [], conn_closed = True,
       trace = [EvWrite (signed_by [10] [1]) None,
                EvRead (framed 1025 (signed_by [11] [2])),
                EvClose]\<rparr>)"
  by (simp add: model_defs example_defs)

lemma example_inbound_oversize:
  "newAuthenticatedInboundConnection example_crypto example_responder
         (fresh_conn [framed 1025 (signed_by [11] [2])]) [11] [11] []
   = (Inl (HandshakeFailed (ReadMsgFailed FrameOversize)),
      \<lparr>incoming = [], write_faults = [], conn_closed = True,
       trace = [EvRead (framed 1025 (signed_by [11] [2])), EvClose]\<rparr>)"
  by (simp add: model_defs example_defs)

lemma example_responder_identity_switch:
  "runHandshakeAsResponder example_crypto example_responder
     \<lparr>Conn = fresh_conn [framed 10 (signed_by [10] [1]), framed 10 (signed_by [12] [3])],
      localPeerID = [11], localPeerPrivateKey = [11], remotePeerID = [],
      remotePeerPublicKey = None\<rparr>
   = (Some (PinnedMismatch [10] [12]),
      \<lparr>Conn = \<lparr>incoming = [], write_faults = [], conn_closed = False,
               trace = [EvRead (framed 10 (signed_by [10] [1])),
                        EvWrite (signed_by [11] [2]) None,
                        EvRead (framed 10 (signed_by [12] [3]))]\<rparr>,
       localPeerID = [11], localPeerPrivateKey = [11], remotePeerID = [10],
       remotePeerPublicKey = None\<rparr>)"
  by (simp add: model_defs example_defs)

subsection \<open>The claims\<close>

text \<open>
  C1. The claim: every error return of the two constructors, the failure to extract the
  remote public key included, closes the transport first. The source closes it where the
  handshake fails, but when \<open>ExtractPublicKey\<close> fails on the expected remote identity
  \<open>newAuthenticatedOutboundConnection\<close> returns at once: the transport comes back as
  it was given, with no call of \<open>Close\<close>.
\<close>

theorem outbound_without_public_key_leaves_transport_open:
  assumes "ExtractPublicKey cr remotePeerID' = Inl e"
  shows "newAuthenticatedOutboundConnection cr hs unauthenticatedConn localPeerID' privateKey
           remotePeerID'
         = (Inl (CouldNotCreateOutbound e), unauthenticatedConn)"
  using assms by (simp add: newAuthenticatedOutboundConnection_def)

text \<open>
  On an open transport the error comes back with the transport still open and nothing in
  its trace; the run beside it, where the handshake itself fails, ends with the close.
\<close>

theorem outbound_without_public_key_leaves_transport_open_witness:
  "ExtractPublicKey example_crypto [] = Inl ''no public key in peer id'' \<and>
   newAuthenticatedOutboundConnection example_crypto example_initiator
       (fresh_conn [framed 10 (signed_by [11] [2])]) [10] [10] []
     = (Inl (CouldNotCreateOutbound ''no public key in peer id''),
        \<lparr>incoming = [framed 10 (signed_by [11] [2])], write_faults = [],
         conn_closed = False, trace = []\<rparr>) \<and>
   newAuthenticatedOutboundConnection example_crypto example_initiator
       (fresh_conn [framed 10 (signed_by [12] [2])]) [10] [10] [11]
     = (Inl (HandshakeFailed (PinnedMismatch [11] [12])),
        \<lparr>incoming = [], write_faults = [], conn_closed = True,
         trace = [EvWrite (signed_by [10] [1]) None,
                  EvRead (framed 10 (signed_by [12] [2])),
                  EvClose]\<rparr>)"
proof -
  have nokey: "ExtractPublicKey example_crypto [] = Inl ''no public key in peer id''"
    by (simp add: example_crypto_def)
  from outbound_without_public_key_leaves_transport_open [OF nokey]
  have "newAuthenticatedOutboundConnection example_crypto example_initiator
       (fresh_conn [framed 10 (signed_by [11] [2])]) [10] [10] []
     = (Inl (CouldNotCreateOutbound ''no public key in peer id''),
        \<lparr>incoming = [framed 10 (signed_by [11] [2])], write_faults = [],
         conn_closed = False, trace = []\<rparr>)"
    by (simp add: fresh_conn_def)
  with nokey show ?thesis
    by (simp add: example_outbound_wrong_identity)
qed

text \<open>
  C2. \<open>responderReceiveAct1\<close> never returns the identity-mismatch error, whatever
  remote identity the connection held before. It performs one read; when the read yields
  an envelope, the envelope's peer id (any byte string, the empty one included) becomes
  the pinned remote identity, and the call fails only if the read, the signature check
  or the unmarshalling fails.
\<close>

theorem responderReceiveAct1_never_identity_mismatch:
  assumes "responderReceiveAct1 cr hs ac rd = (res, ac')"
  shows "(\<forall>p q. res \<noteq> Inl (PinnedMismatch p q)) \<and>
     (\<exists>x. new_events (Conn ac) (Conn ac') = [EvRead x] \<and>
        (case decodeFrame (maxSize rd) x of
           Inl e \<Rightarrow> res = Inl (ReadMsgFailed e) \<and> remotePeerID ac' = remotePeerID ac
         | Inr env \<Rightarrow>
             remotePeerID ac' = PeerID env \<and>
             res = (case verifyEnvelope cr (PeerID env) (Message env) (Signature env) of
                      Some e \<Rightarrow> Inl (VerifyEnvelopeFailed e)
                    | None \<Rightarrow>
                       (case Act1Message_Unmarshal hs (Message env) of
                          Inl e \<Rightarrow> Inl (UnmarshalFailed e)
                        | Inr act1Message \<Rightarrow> Inr act1Message))))"
proof -
  from responderReceiveAct1_sound [OF assms] obtain x where
    x: "trace (Conn ac') = trace (Conn ac) @ [EvRead x]"
    and r: "case decodeFrame (maxSize rd) x of
           Inl e \<Rightarrow> res = Inl (ReadMsgFailed e) \<and> remotePeerID ac' = remotePeerID ac
         | Inr env \<Rightarrow> remotePeerID ac' = PeerID env \<and>
             res = (case verify cr (PeerID env) (PeerID env) (Message env) (Signature env) of
                     Some e \<Rightarrow> Inl e
                   | None \<Rightarrow>
                      (case Act1Message_Unmarshal hs (Message env) of
                         Inl e \<Rightarrow> Inl (UnmarshalFailed e)
                       | Inr m \<Rightarrow> Inr m))"
    by blast
  have "new_events (Conn ac) (Conn ac') = [EvRead x]"
    using x by (rule new_events_append)
  moreover from r have "\<forall>p q. res \<noteq> Inl (PinnedMismatch p q)"
    by (auto split: sum.splits option.splits)
  moreover from r have "case decodeFrame (maxSize rd) x of
           Inl e \<Rightarrow> res = Inl (ReadMsgFailed e) \<and> remotePeerID ac' = remotePeerID ac
         | Inr env \<Rightarrow>
             remotePeerID ac' = PeerID env \<and>
             res = (case verifyEnvelope cr (PeerID env) (Message env) (Signature env) of
                      Some e \<Rightarrow> Inl (VerifyEnvelopeFailed e)
                    | None \<Rightarrow>
                       (case Act1Message_Unmarshal hs (Message env) of
                          Inl e \<Rightarrow> Inl (UnmarshalFailed e)
                        | Inr act1Message \<Rightarrow> Inr act1Message))"
    by (auto split: sum.splits option.splits)
  ultimately show ?thesis by blast
qed

theorem responderReceiveAct1_never_identity_mismatch_witness:
  "(\<forall>p q. (Inr [1] :: error + bytes) \<noteq> Inl (PinnedMismatch p q)) \<and>
   (\<exists>x. new_events (fresh_conn [framed 10 (signed_by [] [1])])
           \<lparr>incoming = [], write_faults = [], conn_closed = False,
            trace = [EvRead (framed 10 (signed_by [] [1]))]\<rparr> = [EvRead x] \<and>
        decodeFrame maxFrameSize x = Inr (signed_by [] [1]))"
  using responderReceiveAct1_never_identity_mismatch [OF example_receive_act1_empty_id]
  by (auto simp: model_defs example_defs split: sum.splits)

text \<open>
  C3. For every pinned identity, sender identity, message and signature, \<open>verify\<close>
  succeeds exactly when the pinned identity equals the sender's and \<open>verifyEnvelope\<close>
  accepts the signature of the message under the sender's identity. When the two
  identities differ it returns the identity-mismatch error, which is no signature error,
  whatever \<open>verifyEnvelope\<close> is: the signature check is not consulted.
\<close>

theorem verify_succeeds_iff:
  "(verify cr pinned sender m s = None
      \<longleftrightarrow> pinned = sender \<and> verifyEnvelope cr sender m s = None) \<and>
   (pinned \<noteq> sender \<longrightarrow>
      (\<forall>cr' :: ('sk, 'pk) crypto.
         verify cr' pinned sender m s = Some (PinnedMismatch pinned sender)) \<and>
      (\<forall>e. verify cr pinned sender m s \<noteq> Some (VerifyEnvelopeFailed e)))"
  by (auto simp: verify_def)

theorem verify_succeeds_iff_witness:
  "verify example_crypto [1] [2] [3] [2, 3] = Some (PinnedMismatch [1] [2]) \<and>
   verify example_crypto [2] [2] [3] [2, 3] = None \<and>
   verify example_crypto [2] [2] [3] [7] = Some (VerifyEnvelopeFailed ''invalid signature'')"
proof -
  have ne: "[1 :: 8 word] \<noteq> [2]" by simp
  have ok: "verifyEnvelope example_crypto [2] [3] [2, 3] = None"
    by (simp add: example_crypto_def)
  have bad: "verifyEnvelope example_crypto [2] [3] [7] = Some ''invalid signature''"
    by (simp add: example_crypto_def)
  from verify_succeeds_iff [of example_crypto "[1]" "[2]" "[3]" "[2, 3]"] ne
  have 1: "verify example_crypto [1] [2] [3] [2, 3] = Some (PinnedMismatch [1] [2])"
    by blast
  from verify_succeeds_iff [of example_crypto "[2]" "[2]" "[3]" "[2, 3]"] ok
  have 2: "verify example_crypto [2] [2] [3] [2, 3] = None"
    by blast
  show ?thesis using 1 2 bad by (simp add: verify_def)
qed

text \<open>
  C4. An initiator given the expected remote identity \<open>R\<close> that reads an Act 2
  envelope whose peer id differs from \<open>R\<close> fails with the identity-mismatch error
  (wrapped by the constructor). The whole run is the Act 1 write, that read and the
  close of the transport: Act 3 is never written.
\<close>

theorem outbound_wrong_act2_identity:
  assumes run: "newAuthenticatedOutboundConnection cr hs c lid sk R = (res, c')"
    and rd: "EvRead x \<in> set (new_events c c')"
    and env: "decodeFrame maxFrameSize x = Inr env"
    and ne: "PeerID env \<noteq> R"
  shows "res = Inl (HandshakeFailed (PinnedMismatch R (PeerID env))) \<and>
     conn_closed c' \<and>
     (\<exists>e1. new_events c c' = [EvWrite e1 None, EvRead x, EvClose])"
  using run
proof (cases rule: newAuthenticatedOutboundConnection_cases)
  case (no_key e)
  with rd show ?thesis by simp
next
  case (aborted pk e ac')
  from runHandshakeAsInitiator_events [OF aborted(2)] obtain evs where
    tr: "trace (Conn ac') = trace c @ evs" by auto
  have ev: "new_events c c' = evs @ [EvClose]"
    using tr aborted(4) by (simp add: new_events_def Close_def)
  from runHandshakeAsInitiator_events [OF aborted(2)] tr rd ev env ne aborted(3,4)
  show ?thesis
    by (auto simp: Close_def verify_def)
next
  case (upgraded pk ac')
  from runHandshakeAsInitiator_events [OF upgraded(2)] obtain evs where
    tr: "trace (Conn ac') = trace c @ evs" by auto
  have ev: "new_events c c' = evs"
    using tr upgraded(4) by (simp add: new_events_def)
  from runHandshakeAsInitiator_events [OF upgraded(2)] tr rd ev env ne
  show ?thesis
    by (auto simp: verify_def)
qed

theorem outbound_wrong_act2_identity_witness:
  "EvRead (framed 10 (signed_by [12] [2]))
     \<in> set (new_events (fresh_conn [framed 10 (signed_by [12] [2])])
         \<lparr>incoming = [], write_faults = [], conn_closed = True,
          trace = [EvWrite (signed_by [10] [1]) None,
                   EvRead (framed 10 (signed_by [12] [2])),
                   EvClose]\<rparr>) \<and>
   decodeFrame maxFrameSize (framed 10 (signed_by [12] [2])) = Inr (signed_by [12] [2]) \<and>
   PeerID (signed_by [12] [2]) \<noteq> [11] \<and>
   (\<exists>e1. new_events (fresh_conn [framed 10 (signed_by [12] [2])])
         \<lparr>incoming = [], write_faults = [], conn_closed = True,
          trace = [EvWrite (signed_by [10] [1]) None,
                   EvRead (framed 10 (signed_by [12] [2])),
                   EvClose]\<rparr>
       = [EvWrite e1 None, EvRead (framed 10 (signed_by [12] [2])), EvClose])"
proof -
  have rd: "EvRead (framed 10 (signed_by [12] [2]))
     \<in> set (new_events (fresh_conn [framed 10 (signed_by [12] [2])])
         \<lparr>incoming = [], write_faults = [], conn_closed = True,
          trace = [EvWrite (signed_by [10] [1]) None,
                   EvRead (framed 10 (signed_by [12] [2])),
                   EvClose]\<rparr>)"
    by (simp add: new_events_def fresh_conn_def)
  have env: "decodeFrame maxFrameSize (framed 10 (signed_by [12] [2])) = Inr (signed_by [12] [2])"
    by (simp add: decodeFrame_def framed_def maxFrameSize_def)
  have ne: "PeerID (signed_by [12] [2]) \<noteq> [11]"
    by (simp add: signed_by_def)
  from outbound_wrong_act2_identity [OF example_outbound_wrong_identity rd env ne] rd env ne
  show ?thesis by blast
qed

text \<open>
  C5. On the responder track neither \<open>responderSendAct2\<close> nor
  \<open>responderReceiveAct3\<close> changes the pinned remote identity. After a run it is the
  peer id of the envelope read for Act 1 (or the initial one if that read gave no
  envelope), and a later envelope with another peer id makes the run fail with the
  identity-mismatch error.
\<close>

theorem responder_pinned_identity_fixed_at_act1:
  "(remotePeerID (snd (responderSendAct2 cr ac1 w)) = remotePeerID ac1) \<and>
   (remotePeerID (snd (responderReceiveAct3 cr hs ac2 rd)) = remotePeerID ac2) \<and>
   (runHandshakeAsResponder cr hs ac = (r, ac') \<longrightarrow>
      (\<exists>x1 rest.
         new_events (Conn ac) (Conn ac') = EvRead x1 # rest \<and>
         (\<forall>e. decodeFrame maxFrameSize x1 = Inl e \<longrightarrow> remotePeerID ac' = remotePeerID ac) \<and>
         (\<forall>env1. decodeFrame maxFrameSize x1 = Inr env1 \<longrightarrow>
            remotePeerID ac' = PeerID env1 \<and>
            (\<forall>x3 env3. EvRead x3 \<in> set rest \<and> decodeFrame maxFrameSize x3 = Inr env3 \<and>
                 PeerID env3 \<noteq> PeerID env1
               \<longrightarrow> r = Some (PinnedMismatch (PeerID env1) (PeerID env3))))))"
proof (intro conjI impI)
  have "responderSendAct2 cr ac1 w
          = (fst (responderSendAct2 cr ac1 w), snd (responderSendAct2 cr ac1 w))"
    by simp
  from responderSendAct2_sound [OF this]
  show "remotePeerID (snd (responderSendAct2 cr ac1 w)) = remotePeerID ac1" by simp
next
  have "responderReceiveAct3 cr hs ac2 rd
          = (fst (responderReceiveAct3 cr hs ac2 rd), snd (responderReceiveAct3 cr hs ac2 rd))"
    by simp
  from responderReceiveAct3_sound [OF this]
  show "remotePeerID (snd (responderReceiveAct3 cr hs ac2 rd)) = remotePeerID ac2" by simp
next
  assume run: "runHandshakeAsResponder cr hs ac = (r, ac')"
  from runHandshakeAsResponder_events [OF run] obtain x1 rest where
    tr: "trace (Conn ac') = trace (Conn ac) @ EvRead x1 # rest" by auto
  have ev: "new_events (Conn ac) (Conn ac') = EvRead x1 # rest"
    using tr by (rule new_events_append)
  from runHandshakeAsResponder_events [OF run] tr
  show "\<exists>x1 rest.
         new_events (Conn ac) (Conn ac') = EvRead x1 # rest \<and>
         (\<forall>e. decodeFrame maxFrameSize x1 = Inl e \<longrightarrow> remotePeerID ac' = remotePeerID ac) \<and>
         (\<forall>env1. decodeFrame maxFrameSize x1 = Inr env1 \<longrightarrow>
            remotePeerID ac' = PeerID env1 \<and>
            (\<forall>x3 env3. EvRead x3 \<in> set rest \<and> decodeFrame maxFrameSize x3 = Inr env3 \<and>
                 PeerID env3 \<noteq> PeerID env1
               \<longrightarrow> r = Some (PinnedMismatch (PeerID env1) (PeerID env3))))"
    unfolding ev by auto
qed

theorem responder_pinned_identity_fixed_at_act1_witness:
  "decodeFrame maxFrameSize (framed 10 (signed_by [10] [1])) = Inr (signed_by [10] [1]) \<and>
   decodeFrame maxFrameSize (framed 10 (signed_by [12] [3])) = Inr (signed_by [12] [3]) \<and>
   PeerID (signed_by [12] [3]) \<noteq> PeerID (signed_by [10] [1]) \<and>
   (\<exists>x1 rest.
      new_events (fresh_conn [framed 10 (signed_by [10] [1]), framed 10 (signed_by [12] [3])])
        \<lparr>incoming = [], write_faults = [], conn_closed = False,
         trace = [EvRead (framed 10 (signed_by [10] [1])),
                  EvWrite (signed_by [11] [2]) None,
                  EvRead (framed 10 (signed_by [12] [3]))]\<rparr> = EvRead x1 # rest \<and>
      EvRead (framed 10 (signed_by [12] [3])) \<in> set rest)"
proof -
  have d1: "decodeFrame maxFrameSize (framed 10 (signed_by [10] [1])) = Inr (signed_by [10] [1])"
    by (simp add: decodeFrame_def framed_def maxFrameSize_def)
  have d3: "decodeFrame maxFrameSize (framed 10 (signed_by [12] [3])) = Inr (signed_by [12] [3])"
    by (simp add: decodeFrame_def framed_def maxFrameSize_def)
  have ne: "PeerID (signed_by [12] [3]) \<noteq> PeerID (signed_by [10] [1])"
    by (simp add: signed_by_def)
  from responder_pinned_identity_fixed_at_act1
    [where cr = example_crypto and hs = example_responder
       and ac = "\<lparr>Conn = fresh_conn [framed 10 (signed_by [10] [1]), framed 10 (signed_by [12] [3])],
                  localPeerID = [11], localPeerPrivateKey = [11], remotePeerID = [],
                  remotePeerPublicKey = None\<rparr>"]
    example_responder_identity_switch d1 d3 ne
  show ?thesis by (auto simp: new_events_def fresh_conn_def)
qed

text \<open>
  C6. A successful outbound upgrade writes exactly two envelopes, Act 1 before the read
  and Act 3 after it; a successful inbound upgrade writes exactly one, Act 2, between its
  two reads. Each write succeeded and carries the marshalled act of the sub-protocol.
  Together that is three envelopes per handshake.
\<close>

theorem successful_handshake_writes_three_envelopes:
  "(newAuthenticatedOutboundConnection cr hs c lid sk R = (Inr ac, c') \<longrightarrow>
      (\<exists>i1 w1 s1 x m2 i3 w3 s3.
         new_events c c' =
           [EvWrite \<lparr>Message = w1, PeerID = lid, Signature = s1\<rparr> None,
            EvRead x,
            EvWrite \<lparr>Message = w3, PeerID = lid, Signature = s3\<rparr> None] \<and>
         InitiateHandshake hs = Inr i1 \<and>
         initiatorAct1_Message_Marshal hs i1 = Inr w1 \<and>
         initiatorAct2_Next hs (initiatorAct1_Next hs i1) m2 = Inr i3 \<and>
         initiatorAct3_Message_Marshal hs i3 = Inr w3) \<and>
      length (written (new_events c c')) = 2) \<and>
   (newAuthenticatedInboundConnection cr' hs' d lid' sk' R' = (Inr ac2, d') \<longrightarrow>
      (\<exists>x1 m1 r2 w2 s2 x3.
         new_events d d' =
           [EvRead x1,
            EvWrite \<lparr>Message = w2, PeerID = lid', Signature = s2\<rparr> None,
            EvRead x3] \<and>
         AnswerHandshake hs' m1 = Inr r2 \<and>
         responderAct2_Message_Marshal hs' r2 = Inr w2) \<and>
      length (written (new_events d d')) = 1) \<and>
   (newAuthenticatedOutboundConnection cr hs c lid sk R = (Inr ac, c') \<and>
    newAuthenticatedInboundConnection cr' hs' d lid' sk' R' = (Inr ac2, d') \<longrightarrow>
      length (written (new_events c c')) + length (written (new_events d d')) = 3)"
proof -
  have out: "\<exists>i1 w1 s1 x m2 i3 w3 s3.
         new_events c c' =
           [EvWrite \<lparr>Message = w1, PeerID = lid, Signature = s1\<rparr> None,
            EvRead x,
            EvWrite \<lparr>Message = w3, PeerID = lid, Signature = s3\<rparr> None] \<and>
         InitiateHandshake hs = Inr i1 \<and>
         initiatorAct1_Message_Marshal hs i1 = Inr w1 \<and>
         initiatorAct2_Next hs (initiatorAct1_Next hs i1) m2 = Inr i3 \<and>
         initiatorAct3_Message_Marshal hs i3 = Inr w3"
    if run: "newAuthenticatedOutboundConnection cr hs c lid sk R = (Inr ac, c')"
    using run
  proof (cases rule: newAuthenticatedOutboundConnection_cases)
    case (upgraded pk ac')
    from runHandshakeAsInitiator_events [OF upgraded(2)] obtain evs where
      tr: "trace (Conn ac') = trace c @ evs" by auto
    have ev: "new_events c c' = evs"
      using tr upgraded(4) by (simp add: new_events_def)
    from runHandshakeAsInitiator_events [OF upgraded(2)] tr show ?thesis
      unfolding ev by (auto; blast)
  qed simp_all
  have inb: "\<exists>x1 m1 r2 w2 s2 x3.
         new_events d d' =
           [EvRead x1,
            EvWrite \<lparr>Message = w2, PeerID = lid', Signature = s2\<rparr> None,
            EvRead x3] \<and>
         AnswerHandshake hs' m1 = Inr r2 \<and>
         responderAct2_Message_Marshal hs' r2 = Inr w2"
    if run: "newAuthenticatedInboundConnection cr' hs' d lid' sk' R' = (Inr ac2, d')"
    using run
  proof (cases rule: newAuthenticatedInboundConnection_cases)
    case (upgraded ac')
    from runHandshakeAsResponder_events [OF upgraded(1)] obtain x1 rest where
      tr: "trace (Conn ac') = trace d @ EvRead x1 # rest" by auto
    have ev: "new_events d d' = EvRead x1 # rest"
      using tr upgraded(3) by (simp add: new_events_def)
    from runHandshakeAsResponder_events [OF upgraded(1)] tr show ?thesis
      unfolding ev by (auto; blast)
  qed simp_all
  from out inb show ?thesis by fastforce
qed

theorem successful_handshake_writes_three_envelopes_witness:
  "length (written (new_events (fresh_conn [framed 10 (signed_by [11] [2])])
      \<lparr>incoming = [], write_faults = [], conn_closed = False,
       trace = [EvWrite (signed_by [10] [1]) None,
                EvRead (framed 10 (signed_by [11] [2])),
                EvWrite (signed_by [10] [3]) None]\<rparr>)) +
   length (written (new_events
      (fresh_conn [framed 10 (signed_by [10] [1]), framed 10 (signed_by [10] [3])])
      \<lparr>incoming = [], write_faults = [], conn_closed = False,
       trace = [EvRead (framed 10 (signed_by [10] [1])),
                EvWrite (signed_by [11] [2]) None,
                EvRead (framed 10 (signed_by [10] [3]))]\<rparr>)) = 3"
  using successful_handshake_writes_three_envelopes
    [where cr = example_crypto and hs = example_initiator
       and c = "fresh_conn [framed 10 (signed_by [11] [2])]"
       and lid = "[10]" and sk = "[10]" and R = "[11]"
       and cr' = example_crypto and hs' = example_responder
       and d = "fresh_conn [framed 10 (signed_by [10] [1]), framed 10 (signed_by [10] [3])]"
       and lid' = "[11]" and sk' = "[11]" and R' = "[]"]
    example_outbound_upgraded example_inbound_upgraded
  by simp

text \<open>
  C7. Whatever \<open>initiatorSendAct1\<close>, \<open>responderSendAct2\<close> or
  \<open>initiatorSendAct3\<close> hands to a write has the given message, the sender's own
  \<open>localPeerID\<close> as peer id and, as signature, what \<open>Sign\<close> returns for the
  message under \<open>localPeerPrivateKey\<close>; when signing succeeds, exactly that one
  envelope is written.
\<close>

theorem sent_envelope_has_local_identity_and_signature:
  "(\<forall>env wr. EvWrite env wr \<in> set (new_events (Conn ac) (Conn (snd (initiatorSendAct1 cr ac w))))
       \<longrightarrow> Message env = w \<and> PeerID env = localPeerID ac \<and>
           Sign cr (localPeerPrivateKey ac) w = Inr (Signature env)) \<and>
   (\<forall>env wr. EvWrite env wr \<in> set (new_events (Conn ac) (Conn (snd (responderSendAct2 cr ac w))))
       \<longrightarrow> Message env = w \<and> PeerID env = localPeerID ac \<and>
           Sign cr (localPeerPrivateKey ac) w = Inr (Signature env)) \<and>
   (\<forall>env wr. EvWrite env wr \<in> set (new_events (Conn ac) (Conn (snd (initiatorSendAct3 cr ac w))))
       \<longrightarrow> Message env = w \<and> PeerID env = localPeerID ac \<and>
           Sign cr (localPeerPrivateKey ac) w = Inr (Signature env)) \<and>
   (\<forall>s. Sign cr (localPeerPrivateKey ac) w = Inr s \<longrightarrow>
      written (new_events (Conn ac) (Conn (snd (initiatorSendAct1 cr ac w))))
        = [\<lparr>Message = w, PeerID = localPeerID ac, Signature = s\<rparr>] \<and>
      written (new_events (Conn ac) (Conn (snd (responderSendAct2 cr ac w))))
        = [\<lparr>Message = w, PeerID = localPeerID ac, Signature = s\<rparr>] \<and>
      written (new_events (Conn ac) (Conn (snd (initiatorSendAct3 cr ac w))))
        = [\<lparr>Message = w, PeerID = localPeerID ac, Signature = s\<rparr>])"
proof -
  have 1: "initiatorSendAct1 cr ac w = (fst (initiatorSendAct1 cr ac w), snd (initiatorSendAct1 cr ac w))"
    by simp
  have 2: "responderSendAct2 cr ac w = (fst (responderSendAct2 cr ac w), snd (responderSendAct2 cr ac w))"
    by simp
  have 3: "initiatorSendAct3 cr ac w = (fst (initiatorSendAct3 cr ac w), snd (initiatorSendAct3 cr ac w))"
    by simp
  show ?thesis
  proof (cases "Sign cr (localPeerPrivateKey ac) w")
    case (Inl e)
    with initiatorSendAct1_sound [OF 1] responderSendAct2_sound [OF 2] initiatorSendAct3_sound [OF 3]
    show ?thesis by (simp add: new_events_def)
  next
    case (Inr s)
    with initiatorSendAct1_sound [OF 1] responderSendAct2_sound [OF 2] initiatorSendAct3_sound [OF 3]
    show ?thesis by (auto simp: new_events_def)
  qed
qed

theorem sent_envelope_has_local_identity_and_signature_witness:
  "Sign example_crypto [10] [1] = Inr [10, 1] \<and>
   written (new_events (fresh_conn [])
      (Conn (snd (initiatorSendAct1 example_crypto
         \<lparr>Conn = fresh_conn [], localPeerID = [10], localPeerPrivateKey = [10],
          remotePeerID = [11], remotePeerPublicKey = Some [11]\<rparr> [1]))))
     = [\<lparr>Message = [1], PeerID = [10], Signature = [10, 1]\<rparr>]"
proof -
  have s: "Sign example_crypto [10] [1] = Inr [10, 1]"
    by (simp add: example_crypto_def)
  from sent_envelope_has_local_identity_and_signature
    [of "\<lparr>Conn = fresh_conn [], localPeerID = [10], localPeerPrivateKey = [10],
          remotePeerID = [11], remotePeerPublicKey = Some [11]\<rparr>" example_crypto "[1]"] s
  show ?thesis by simp
qed

text \<open>
  C8. Both tracks read with a reader bounded by \<open>maxFrameSize\<close>, which is 1024. In
  either constructor, a read that meets a frame longer than 1024 makes the upgrade fail
  with the frame-oversize error; the read is the last thing done on the transport before
  it is closed.
\<close>

theorem oversize_frame_aborts_handshake:
  "(newAuthenticatedOutboundConnection cr hs c lid sk R = (res, c') \<and>
    EvRead (Frame f) \<in> set (new_events c c') \<and> 1024 < encoded_len f \<longrightarrow>
      res = Inl (HandshakeFailed (ReadMsgFailed FrameOversize)) \<and> conn_closed c' \<and>
      (\<exists>pre. new_events c c' = pre @ [EvRead (Frame f), EvClose])) \<and>
   (newAuthenticatedInboundConnection cr' hs' d lid' sk' R' = (res', d') \<and>
    EvRead (Frame f) \<in> set (new_events d d') \<and> 1024 < encoded_len f \<longrightarrow>
      res' = Inl (HandshakeFailed (ReadMsgFailed FrameOversize)) \<and> conn_closed d' \<and>
      (\<exists>pre. new_events d d' = pre @ [EvRead (Frame f), EvClose]))"
proof -
  have out: "res = Inl (HandshakeFailed (ReadMsgFailed FrameOversize)) \<and> conn_closed c' \<and>
      (\<exists>pre. new_events c c' = pre @ [EvRead (Frame f), EvClose])"
    if run: "newAuthenticatedOutboundConnection cr hs c lid sk R = (res, c')"
      and rd: "EvRead (Frame f) \<in> set (new_events c c')"
      and big: "1024 < encoded_len f"
  proof -
  from big have dec: "decodeFrame maxFrameSize (Frame f) = Inl FrameOversize"
    by (simp add: decodeFrame_oversize maxFrameSize_def)
  from run show ?thesis
  proof (cases rule: newAuthenticatedOutboundConnection_cases)
    case (no_key e)
    with rd show ?thesis by simp
  next
    case (aborted pk e ac')
    from runHandshakeAsInitiator_events [OF aborted(2)] obtain evs where
      tr: "trace (Conn ac') = trace c @ evs" by auto
    have ev: "new_events c c' = evs @ [EvClose]"
      using tr aborted(4) by (simp add: new_events_def Close_def)
    from runHandshakeAsInitiator_events [OF aborted(2)] tr rd ev dec aborted(3,4)
    show ?thesis
      by (auto simp: Close_def)
  next
    case (upgraded pk ac')
    from runHandshakeAsInitiator_events [OF upgraded(2)] obtain evs where
      tr: "trace (Conn ac') = trace c @ evs" by auto
    have ev: "new_events c c' = evs"
      using tr upgraded(4) by (simp add: new_events_def)
    from runHandshakeAsInitiator_events [OF upgraded(2)] tr rd ev dec
    show ?thesis
      by auto
  qed
  qed
  have inb: "res' = Inl (HandshakeFailed (ReadMsgFailed FrameOversize)) \<and> conn_closed d' \<and>
      (\<exists>pre. new_events d d' = pre @ [EvRead (Frame f), EvClose])"
    if run: "newAuthenticatedInboundConnection cr' hs' d lid' sk' R' = (res', d')"
      and rd: "EvRead (Frame f) \<in> set (new_events d d')"
      and big: "1024 < encoded_len f"
  proof -
  from big have dec: "decodeFrame maxFrameSize (Frame f) = Inl FrameOversize"
    by (simp add: decodeFrame_oversize maxFrameSize_def)
  from run show ?thesis
  proof (cases rule: newAuthenticatedInboundConnection_cases)
    case (aborted e ac')
    from runHandshakeAsResponder_events [OF aborted(1)] obtain x1 rest where
      tr: "trace (Conn ac') = trace d @ EvRead x1 # rest" by auto
    have ev: "new_events d d' = EvRead x1 # rest @ [EvClose]"
      using tr aborted(3) by (simp add: new_events_def Close_def)
    from runHandshakeAsResponder_events [OF aborted(1)] tr rd ev dec aborted(2,3)
    show ?thesis
      by (auto simp: Close_def)
  next
    case (upgraded ac')
    from runHandshakeAsResponder_events [OF upgraded(1)] obtain x1 rest where
      tr: "trace (Conn ac') = trace d @ EvRead x1 # rest" by auto
    have ev: "new_events d d' = EvRead x1 # rest"
      using tr upgraded(3) by (simp add: new_events_def)
    from runHandshakeAsResponder_events [OF upgraded(1)] tr rd ev dec
    show ?thesis
      by auto
  qed
  qed
  from out inb show ?thesis by blast
qed

theorem oversize_frame_aborts_handshake_witness:
  "EvRead (Frame \<lparr>encoded_len = 1025, payload = Some (signed_by [11] [2])\<rparr>)
     \<in> set (new_events (fresh_conn [framed 1025 (signed_by [11] [2])])
          \<lparr>incoming = [], write_faults = [], conn_closed = True,
           trace = [EvWrite (signed_by [10] [1]) None,
                    EvRead (framed 1025 (signed_by [11] [2])),
                    EvClose]\<rparr>) \<and>
   EvRead (Frame \<lparr>encoded_len = 1025, payload = Some (signed_by [11] [2])\<rparr>)
     \<in> set (new_events (fresh_conn [framed 1025 (signed_by [11] [2])])
          \<lparr>incoming = [], write_faults = [], conn_closed = True,
           trace = [EvRead (framed 1025 (signed_by [11] [2])), EvClose]\<rparr>) \<and>
   (1024 :: nat) < encoded_len \<lparr>encoded_len = 1025, payload = Some (signed_by [11] [2])\<rparr> \<and>
   (\<exists>pre. new_events (fresh_conn [framed 1025 (signed_by [11] [2])])
          \<lparr>incoming = [], write_faults = [], conn_closed = True,
           trace = [EvWrite (signed_by [10] [1]) None,
                    EvRead (framed 1025 (signed_by [11] [2])),
                    EvClose]\<rparr>
      = pre @ [EvRead (Frame \<lparr>encoded_len = 1025, payload = Some (signed_by [11] [2])\<rparr>),
               EvClose]) \<and>
   (\<exists>pre. new_events (fresh_conn [framed 1025 (signed_by [11] [2])])
          \<lparr>incoming = [], write_faults = [], conn_closed = True,
           trace = [EvRead (framed 1025 (signed_by [11] [2])), EvClose]\<rparr>
      = pre @ [EvRead (Frame \<lparr>encoded_len = 1025, payload = Some (signed_by [11] [2])\<rparr>),
               EvClose])"
proof -
  have r1: "EvRead (Frame \<lparr>encoded_len = 1025, payload = Some (signed_by [11] [2])\<rparr>)
     \<in> set (new_events (fresh_conn [framed 1025 (signed_by [11] [2])])
          \<lparr>incoming = [], write_faults = [], conn_closed = True,
           trace = [EvWrite (signed_by [10] [1]) None,
                    EvRead (framed 1025 (signed_by [11] [2])),
                    EvClose]\<rparr>)"
    by (simp add: new_events_def fresh_conn_def framed_def)
  have r2: "EvRead (Frame \<lparr>encoded_len = 1025, payload = Some (signed_by [11] [2])\<rparr>)
     \<in> set (new_events (fresh_conn [framed 1025 (signed_by [11] [2])])
          \<lparr>incoming = [], write_faults = [], conn_closed = True,
           trace = [EvRead (framed 1025 (signed_by [11] [2])), EvClose]\<rparr>)"
    by (simp add: new_events_def fresh_conn_def framed_def)
  have big: "(1024 :: nat) < encoded_len \<lparr>encoded_len = 1025, payload = Some (signed_by [11] [2])\<rparr>"
    by simp
  from oversize_frame_aborts_handshake
    [where cr = example_crypto and hs = example_initiator
       and c = "fresh_conn [framed 1025 (signed_by [11] [2])]"
       and lid = "[10]" and sk = "[10]" and R = "[11]"
       and cr' = example_crypto and hs' = example_responder
       and d = "fresh_conn [framed 1025 (signed_by [11] [2])]"
       and lid' = "[11]" and sk' = "[11]" and R' = "[]"
       and f = "\<lparr>encoded_len = 1025, payload = Some (signed_by [11] [2])\<rparr>"]
    example_outbound_oversize example_inbound_oversize r1 r2 big
  show ?thesis by simp
qed

text \<open>
  C9. Every responder run begins with a read. If anything is written after it, the
  frame read was an envelope whose check by \<open>verify\<close> passed, whose message
  unmarshalled and which \<open>AnswerHandshake\<close> accepted. If \<open>responderReceiveAct1\<close>
  fails, the run returns its error with nothing but that read on the transport.
\<close>

theorem responder_writes_nothing_before_act1:
  assumes "runHandshakeAsResponder cr hs ac = (r, ac')"
  shows "\<exists>x1 rest.
     new_events (Conn ac) (Conn ac') = EvRead x1 # rest \<and>
     (written rest \<noteq> [] \<longrightarrow>
        (\<exists>env1 act1Message responderAct2.
           decodeFrame maxFrameSize x1 = Inr env1 \<and>
           verify cr (PeerID env1) (PeerID env1) (Message env1) (Signature env1) = None \<and>
           Act1Message_Unmarshal hs (Message env1) = Inr act1Message \<and>
           AnswerHandshake hs act1Message = Inr responderAct2)) \<and>
     (\<forall>e ac1. responderReceiveAct1 cr hs ac (NewDelimitedReader maxFrameSize) = (Inl e, ac1)
        \<longrightarrow> r = Some e \<and> ac' = ac1 \<and> rest = [])"
proof -
  from runHandshakeAsResponder_events [OF assms] obtain x1 rest where
    tr: "trace (Conn ac') = trace (Conn ac) @ EvRead x1 # rest" by auto
  have ev: "new_events (Conn ac) (Conn ac') = EvRead x1 # rest"
    using tr by (rule new_events_append)
  have val: "written rest \<noteq> [] \<longrightarrow>
        (\<exists>env1 act1Message responderAct2.
           decodeFrame maxFrameSize x1 = Inr env1 \<and>
           verify cr (PeerID env1) (PeerID env1) (Message env1) (Signature env1) = None \<and>
           Act1Message_Unmarshal hs (Message env1) = Inr act1Message \<and>
           AnswerHandshake hs act1Message = Inr responderAct2)"
    using runHandshakeAsResponder_events [OF assms] tr by auto
  have fail: "\<forall>e ac1. responderReceiveAct1 cr hs ac (NewDelimitedReader maxFrameSize) = (Inl e, ac1)
        \<longrightarrow> r = Some e \<and> ac' = ac1 \<and> rest = []"
  proof (intro allI impI)
    fix e ac1
    assume f: "responderReceiveAct1 cr hs ac (NewDelimitedReader maxFrameSize) = (Inl e, ac1)"
    with assms have 1: "r = Some e" "ac' = ac1"
      by (simp_all add: runHandshakeAsResponder_def)
    from responderReceiveAct1_sound [OF f] 1 tr have "rest = []" by auto
    with 1 show "r = Some e \<and> ac' = ac1 \<and> rest = []" by simp
  qed
  from ev val fail show ?thesis by blast
qed

theorem responder_writes_nothing_before_act1_witness:
  "written (new_events
      (fresh_conn [Frame \<lparr>encoded_len = 10,
                 payload = Some \<lparr>Message = [1], PeerID = [10], Signature = [66]\<rparr>\<rparr>])
      \<lparr>incoming = [], write_faults = [], conn_closed = False,
       trace = [EvRead (Frame \<lparr>encoded_len = 10,
                 payload = Some \<lparr>Message = [1], PeerID = [10], Signature = [66]\<rparr>\<rparr>)]\<rparr>) = [] \<and>
   written [EvWrite (signed_by [11] [2]) None, EvRead (framed 10 (signed_by [12] [3]))] \<noteq> [] \<and>
   (\<exists>act1Message responderAct2.
      decodeFrame maxFrameSize (framed 10 (signed_by [10] [1])) = Inr (signed_by [10] [1]) \<and>
      verify example_crypto [10] [10] [1] [10, 1] = None \<and>
      Act1Message_Unmarshal example_responder [1] = Inr act1Message \<and>
      AnswerHandshake example_responder act1Message = Inr responderAct2)"
proof -
  have w: "written [EvWrite (signed_by [11] [2]) None,
                    EvRead (framed 10 (signed_by [12] [3]))] \<noteq> []"
    by simp
  from responder_writes_nothing_before_act1 [OF example_responder_bad_signature]
  have quiet: "written (new_events
      (fresh_conn [Frame \<lparr>encoded_len = 10,
                 payload = Some \<lparr>Message = [1], PeerID = [10], Signature = [66]\<rparr>\<rparr>])
      \<lparr>incoming = [], write_faults = [], conn_closed = False,
       trace = [EvRead (Frame \<lparr>encoded_len = 10,
                 payload = Some \<lparr>Message = [1], PeerID = [10], Signature = [66]\<rparr>\<rparr>)]\<rparr>) = []"
    by (auto simp: model_defs example_defs)
  from responder_writes_nothing_before_act1 [OF example_responder_identity_switch] w
  have "\<exists>act1Message responderAct2.
      decodeFrame maxFrameSize (framed 10 (signed_by [10] [1])) = Inr (signed_by [10] [1]) \<and>
      verify example_crypto [10] [10] [1] [10, 1] = None \<and>
      Act1Message_Unmarshal example_responder [1] = Inr act1Message \<and>
      AnswerHandshake example_responder act1Message = Inr responderAct2"
    by (auto simp: model_defs example_defs split: if_splits)
  with quiet w show ?thesis by blast
qed

text \<open>
  C10. An initiator run writes at most two envelopes. If it writes a second one (Act 3),
  then the run is the Act 1 write, one read and the Act 3 write in this order, the frame
  read was an envelope that passed \<open>verify\<close> against the remote identity and
  unmarshalled, and \<open>initiatorAct2_Next\<close> accepted the message. A failure of any of
  these therefore ends the run with Act 3 unwritten.
\<close>

theorem initiator_act3_only_after_act2_accepted:
  assumes "runHandshakeAsInitiator cr hs ac = (r, ac')"
  shows "length (written (new_events (Conn ac) (Conn ac'))) \<le> 2 \<and>
     (length (written (new_events (Conn ac) (Conn ac'))) = 2 \<longrightarrow>
        (\<exists>i1 w1 s1 x env m2 i3 w3 s3 wr.
           new_events (Conn ac) (Conn ac') =
             [EvWrite \<lparr>Message = w1, PeerID = localPeerID ac, Signature = s1\<rparr> None,
              EvRead x,
              EvWrite \<lparr>Message = w3, PeerID = localPeerID ac, Signature = s3\<rparr> wr] \<and>
           InitiateHandshake hs = Inr i1 \<and>
           initiatorAct1_Message_Marshal hs i1 = Inr w1 \<and>
           decodeFrame maxFrameSize x = Inr env \<and>
           verify cr (remotePeerID ac) (PeerID env) (Message env) (Signature env) = None \<and>
           Act2Message_Unmarshal hs (Message env) = Inr m2 \<and>
           initiatorAct2_Next hs (initiatorAct1_Next hs i1) m2 = Inr i3 \<and>
           initiatorAct3_Message_Marshal hs i3 = Inr w3))"
proof -
  from runHandshakeAsInitiator_events [OF assms] obtain evs where
    tr: "trace (Conn ac') = trace (Conn ac) @ evs" by auto
  have ev: "new_events (Conn ac) (Conn ac') = evs"
    using tr by (rule new_events_append)
  from runHandshakeAsInitiator_events [OF assms] tr show ?thesis
    unfolding ev by auto
qed

theorem initiator_act3_only_after_act2_accepted_witness:
  "length (written [EvWrite (signed_by [10] [1]) None,
                    EvRead (framed 10 (signed_by [11] [2])),
                    EvWrite (signed_by [10] [3]) None]) = 2 \<and>
   (\<exists>m2 i3. decodeFrame maxFrameSize (framed 10 (signed_by [11] [2])) = Inr (signed_by [11] [2]) \<and>
      verify example_crypto [11] [11] [2] [11, 2] = None \<and>
      Act2Message_Unmarshal example_initiator [2] = Inr m2 \<and>
      initiatorAct2_Next example_initiator (initiatorAct1_Next example_initiator 1) m2 = Inr i3 \<and>
      initiatorAct3_Message_Marshal example_initiator i3 = Inr [3])"
  using initiator_act3_only_after_act2_accepted [OF example_initiator_run]
  by (auto simp: model_defs example_defs split: if_splits)

end
